theory Spec2Isabelle
  imports Complex_Main
begin

section \<open>Python text in the two tool servers\<close>

text \<open>
  In \<^verbatim>\<open>server.py\<close> and \<^verbatim>\<open>travel_server.py\<close> a Python \<^verbatim>\<open>str\<close> is modelled as a
  \<^typ>\<open>string\<close> holding its UTF-8 bytes. The servers only compare, search, concatenate and
  percent-encode text, and on well-formed UTF-8 these agree with the same operations on
  code points. The non-ASCII characters of the source's literals (the euro sign, emoji,
  accented letters) are written as their bytes.

  \<^verbatim>\<open>str.lower()\<close> is modelled on the ASCII capitals. The bytes of every other character are
  left alone; Python maps other capitals to other non-ASCII letters, and the two
  characters whose lower case holds an ASCII letter (U+0130, U+212A) give an \<^verbatim>\<open>i\<close> followed
  by a combining dot and a \<^verbatim>\<open>k\<close>, neither of which can take part in a match of the
  keywords searched for below.
\<close>

definition lower_char :: "char \<Rightarrow> char" where
  "lower_char c =
     (if (65::nat) \<le> of_char c \<and> of_char c \<le> (90::nat)
      then char_of (of_char c + (32::nat)) else c)"

definition lower :: "string \<Rightarrow> string" where
  "lower s = map lower_char s"

text \<open>\<^verbatim>\<open>s.startswith(sub)\<close> and \<^verbatim>\<open>sub in s\<close> on text.\<close>

fun startswith :: "string \<Rightarrow> string \<Rightarrow> bool" where
  "startswith s [] = True"
| "startswith [] (p # ps) = False"
| "startswith (c # cs) (p # ps) = (c = p \<and> startswith cs ps)"

fun str_in :: "string \<Rightarrow> string \<Rightarrow> bool" where
  "str_in sub [] = (sub = [])"
| "str_in sub (c # cs) = (startswith (c # cs) sub \<or> str_in sub cs)"

section \<open>The planning engine: \<^verbatim>\<open>travel_server.py\<close>\<close>

subsection \<open>\<^verbatim>\<open>classify_weather\<close>\<close>

text \<open>
  \<^verbatim>\<open>
  def classify_weather(weather_condition: str, temp: float) -> str:
      condition_lower = weather_condition.lower()
      if "rain" in condition_lower or "pioggia" in condition_lower:
          return "rain"
      elif "snow" in condition_lower or "neve" in condition_lower:
          return "snow"
      elif "sunny" in condition_lower or "clear" in condition_lower or "sereno" in condition_lower:
          if temp > 28:
              return "hot"
          return "sunny"
      elif temp < 5:
          return "cold"
      elif temp < 18:
          return "mild"
      else:
          return "partly_cloudy"
  \<close>
  The temperature is a finite number (a JSON number); it is only compared with the
  integer constants 28, 5 and 18, which is exact on floats, so it is a \<^typ>\<open>real\<close> here.
\<close>

definition classify_weather :: "string \<Rightarrow> real \<Rightarrow> string" where
  "classify_weather weather_condition temp =
     (let condition_lower = lower weather_condition in
      if str_in ''rain'' condition_lower \<or> str_in ''pioggia'' condition_lower then ''rain''
      else if str_in ''snow'' condition_lower \<or> str_in ''neve'' condition_lower then ''snow''
      else if str_in ''sunny'' condition_lower \<or> str_in ''clear'' condition_lower
              \<or> str_in ''sereno'' condition_lower
           then (if temp > 28 then ''hot'' else ''sunny'')
      else if temp < 5 then ''cold''
      else if temp < 18 then ''mild''
      else ''partly_cloudy'')"

text \<open>The three keyword tests of \<^const>\<open>classify_weather\<close>, as notation for the statements.\<close>

abbreviation rain_text :: "string \<Rightarrow> bool" where
  "rain_text c \<equiv> str_in ''rain'' (lower c) \<or> str_in ''pioggia'' (lower c)"

abbreviation snow_text :: "string \<Rightarrow> bool" where
  "snow_text c \<equiv> str_in ''snow'' (lower c) \<or> str_in ''neve'' (lower c)"

abbreviation clear_text :: "string \<Rightarrow> bool" where
  "clear_text c \<equiv>
     str_in ''sunny'' (lower c) \<or> str_in ''clear'' (lower c) \<or> str_in ''sereno'' (lower c)"

text \<open>Decimal rendering of a number, as \<^verbatim>\<open>str(n)\<close> and an f-string do for an \<^verbatim>\<open>int\<close>.\<close>

definition digit_char :: "nat \<Rightarrow> char" where
  "digit_char d = char_of (48 + d)"

fun str_nat :: "nat \<Rightarrow> string" where
  "str_nat n = (if n < 10 then [digit_char n] else str_nat (n div 10) @ [digit_char (n mod 10)])"

declare str_nat.simps [simp del]

definition str_int :: "int \<Rightarrow> string" where
  "str_int i = (if i < 0 then ''-'' @ str_nat (nat (- i)) else str_nat (nat i))"

subsection \<open>\<^verbatim>\<open>RESTAURANTS_DB\<close> and the \<^verbatim>\<open>suggest_restaurants\<close> tool\<close>

text \<open>
  An entry of \<^verbatim>\<open>RESTAURANTS_DB\<close> is a dictionary with the keys \<^verbatim>\<open>name\<close>, \<^verbatim>\<open>type\<close>,
  \<^verbatim>\<open>price\<close> and \<^verbatim>\<open>specialty\<close>. The price tiers are one, two or three euro signs
  (U+20AC, the bytes E2 82 AC).
\<close>

record restaurant =
  r_name :: string
  r_type :: string
  r_price :: string
  r_specialty :: string

definition euro :: string where
  "euro = [CHR 0xE2, CHR 0x82, CHR 0xAC]"

definition RESTAURANTS_DB :: "(string \<times> restaurant list) list" where
  "RESTAURANTS_DB =
     [(''Milano'',
        [\<lparr>r_name = ''Trattoria Milanese'', r_type = ''tradizionale'', r_price = euro @ euro,
          r_specialty = ''Cucina milanese''\<rparr>,
         \<lparr>r_name = ''Luini'', r_type = ''street_food'', r_price = euro,
          r_specialty = ''Panzerotti''\<rparr>,
         \<lparr>r_name = ''Eataly Smeraldo'', r_type = ''food_hall'', r_price = euro @ euro,
          r_specialty = ''Prodotti italiani''\<rparr>]),
      (''Roma'',
        [\<lparr>r_name = ''Roscioli'', r_type = ''bistrot'', r_price = euro @ euro @ euro,
          r_specialty = ''Cucina romana''\<rparr>,
         \<lparr>r_name = ''Trapizzino'', r_type = ''street_food'', r_price = euro,
          r_specialty = ''Trapizzini''\<rparr>]),
      (''default'',
        [\<lparr>r_name = ''Ristorante Locale'', r_type = ''tradizionale'', r_price = euro @ euro,
          r_specialty = ''Cucina locale''\<rparr>])]"

text \<open>\<^verbatim>\<open>RESTAURANTS_DB.get(location, RESTAURANTS_DB["default"])\<close>\<close>

definition restaurants_for :: "string \<Rightarrow> restaurant list" where
  "restaurants_for location =
     (case map_of RESTAURANTS_DB location of
        Some rs \<Rightarrow> rs
      | None \<Rightarrow> (case map_of RESTAURANTS_DB ''default'' of Some rs \<Rightarrow> rs | None \<Rightarrow> []))"

text \<open>\<^verbatim>\<open>filtered = [r for r in restaurants if r["price"] == budget or budget == "\<euro>\<euro>"]\<close>,
  the euro signs written here as an Isabelle symbol.\<close>

definition filtered_restaurants :: "string \<Rightarrow> string \<Rightarrow> restaurant list" where
  "filtered_restaurants location budget =
     filter (\<lambda>r. r_price r = budget \<or> budget = euro @ euro) (restaurants_for location)"

text \<open>
  The body of the loop \<^verbatim>\<open>for i, restaurant in enumerate(filtered[:3], 1)\<close>: the four lines
  added to the result for entry \<^verbatim>\<open>i\<close>. (\<^verbatim>\<open>Specialit\<close> ends in U+00E0, the bytes C3 A0.)
\<close>

definition restaurant_lines :: "nat \<Rightarrow> restaurant \<Rightarrow> string" where
  "restaurant_lines i restaurant =
     str_nat i @ ''. **'' @ r_name restaurant @ ''**\<newline>''
     @ ''   - Tipo: '' @ r_type restaurant @ ''\<newline>''
     @ ''   - Specialit'' @ [CHR 0xC3, CHR 0xA0] @ '': '' @ r_specialty restaurant @ ''\<newline>''
     @ ''   - Prezzo: '' @ r_price restaurant @ ''\<newline>\<newline>''"

fun enumerate_from :: "nat \<Rightarrow> 'a list \<Rightarrow> (nat \<times> 'a) list" where
  "enumerate_from i [] = []"
| "enumerate_from i (x # xs) = (i, x) # enumerate_from (Suc i) xs"

text \<open>The text built from the list \<^verbatim>\<open>filtered\<close>; the two emoji are U+1F37D U+FE0F and U+1F4B0.\<close>

definition restaurants_text :: "string \<Rightarrow> string \<Rightarrow> string \<Rightarrow> restaurant list \<Rightarrow> string" where
  "restaurants_text location meal_type budget filtered =
     ''**Ristoranti consigliati a '' @ location @ ''**\<newline>\<newline>''
     @ [CHR 0xF0, CHR 0x9F, CHR 0x8D, CHR 0xBD, CHR 0xEF, CHR 0xB8, CHR 0x8F]
     @ '' Pasto: '' @ meal_type @ ''\<newline>''
     @ [CHR 0xF0, CHR 0x9F, CHR 0x92, CHR 0xB0] @ '' Budget: '' @ budget @ ''\<newline>\<newline>''
     @ concat (map (\<lambda>(i, restaurant). restaurant_lines i restaurant)
                 (enumerate_from 1 (take 3 filtered)))"

text \<open>
  The \<^verbatim>\<open>suggest_restaurants\<close> branch of \<^verbatim>\<open>call_tool\<close>. Its arguments are taken with the
  types the tool's input schema declares (all four are strings); an argument that is
  absent from the dictionary is \<^const>\<open>None\<close>. \<^verbatim>\<open>arguments["location"]\<close> raises
  \<^verbatim>\<open>KeyError\<close> when the key is absent, and the handler's \<^verbatim>\<open>except Exception\<close> turns it into
  the text \<^verbatim>\<open>Errore: 'location'\<close>. The result is the text of the single \<^verbatim>\<open>TextContent\<close>
  returned.
\<close>

definition key_error :: "string \<Rightarrow> string" where
  "key_error k = ''Errore: '' @ [CHR 0x27] @ k @ [CHR 0x27]"

definition suggest_restaurants ::
  "string option \<Rightarrow> string option \<Rightarrow> string option \<Rightarrow> string option \<Rightarrow> string" where
  "suggest_restaurants location_arg meal_type_arg cuisine_type_arg budget_arg =
     (case location_arg of
        None \<Rightarrow> key_error ''location''
      | Some location \<Rightarrow>
          (let meal_type = (case meal_type_arg of None \<Rightarrow> ''lunch'' | Some m \<Rightarrow> m);
               cuisine_type = (case cuisine_type_arg of None \<Rightarrow> ''tradizionale'' | Some c \<Rightarrow> c);
               budget = (case budget_arg of None \<Rightarrow> euro @ euro | Some b \<Rightarrow> b);
               filtered = filtered_restaurants location budget
           in restaurants_text location meal_type budget filtered))"

subsection \<open>The \<^verbatim>\<open>create_itinerary\<close> tool\<close>

text \<open>
  \<^verbatim>\<open>
  times = ["09:00", "11:00", "13:00", "15:00", "17:00", "19:00"]
  timeline = []
  for i, activity in enumerate(activities[:3]):
      timeline.append((times[i*2], activity, "activity"))
      if i < len(restaurants):
          timeline.append((times[i*2+1], restaurants[i], "restaurant"))
  \<close>
  The loop is a recursion on the activities still to place, with the index \<^verbatim>\<open>i\<close>. The
  index stays below 3, so both reads of \<^verbatim>\<open>times\<close> are in range (lemma
  \<open>timeline_loop_times_in_range\<close> below), and \<^verbatim>\<open>restaurants[i]\<close> is read under its guard.
\<close>

definition times :: "string list" where
  "times = [''09:00'', ''11:00'', ''13:00'', ''15:00'', ''17:00'', ''19:00'']"

type_synonym timeline_entry = "string \<times> string \<times> string"

fun timeline_loop :: "nat \<Rightarrow> string list \<Rightarrow> string list \<Rightarrow> timeline_entry list" where
  "timeline_loop i [] restaurants = []"
| "timeline_loop i (activity # rest) restaurants =
     (times ! (i * 2), activity, ''activity'')
     # (if i < length restaurants
        then [(times ! (i * 2 + 1), restaurants ! i, ''restaurant'')] else [])
     @ timeline_loop (Suc i) rest restaurants"

definition timeline :: "string list \<Rightarrow> string list \<Rightarrow> timeline_entry list" where
  "timeline activities restaurants = timeline_loop 0 (take 3 activities) restaurants"

text \<open>
  \<^verbatim>\<open>
  for time, item, type in timeline:
      icon = "(U+1F3AF)" if type == "activity" else "(U+1F37D U+FE0F)"
      result += f"**{time}** {icon} {item}\n\n"
  \<close>
\<close>

definition timeline_line :: "timeline_entry \<Rightarrow> string" where
  "timeline_line e =
     (case e of (time, item, type) \<Rightarrow>
        (let icon = (if type = ''activity'' then [CHR 0xF0, CHR 0x9F, CHR 0x8E, CHR 0xAF]
                     else [CHR 0xF0, CHR 0x9F, CHR 0x8D, CHR 0xBD, CHR 0xEF, CHR 0xB8, CHR 0x8F])
         in ''**'' @ time @ ''** '' @ icon @ '' '' @ item @ ''\<newline>\<newline>''))"

text \<open>The heading and the three tips that close every itinerary
  (the emoji are U+1F4C5 and U+1F4A1).\<close>

definition itinerary_head :: "string \<Rightarrow> string \<Rightarrow> string" where
  "itinerary_head location start_time =
     ''# '' @ [CHR 0xF0, CHR 0x9F, CHR 0x93, CHR 0x85] @ '' Itinerario per '' @ location
     @ ''\<newline>\<newline>'' @ ''**Inizio:** '' @ start_time @ ''\<newline>\<newline>''"

definition travel_tips :: "string list" where
  "travel_tips =
     [''- Porta sempre un ombrello pieghevole\<newline>'',
      ''- Prenota i ristoranti in anticipo\<newline>'',
      ''- Usa i mezzi pubblici o cammina\<newline>'']"

definition tips_heading :: string where
  "tips_heading = ''\<newline>'' @ [CHR 0xF0, CHR 0x9F, CHR 0x92, CHR 0xA1] @ '' **Consigli:**\<newline>''"

text \<open>
  The \<^verbatim>\<open>create_itinerary\<close> branch of \<^verbatim>\<open>call_tool\<close>: \<^verbatim>\<open>location\<close> and \<^verbatim>\<open>activities\<close> are
  read with \<^verbatim>\<open>arguments[...]\<close> (in this order), \<^verbatim>\<open>restaurants\<close> and \<^verbatim>\<open>start_time\<close> with
  \<^verbatim>\<open>arguments.get\<close>. The two lists are arrays of strings, as the schema declares.
\<close>

definition create_itinerary ::
  "string option \<Rightarrow> string list option \<Rightarrow> string list option \<Rightarrow> string option \<Rightarrow> string" where
  "create_itinerary location_arg activities_arg restaurants_arg start_time_arg =
     (case location_arg of
        None \<Rightarrow> key_error ''location''
      | Some location \<Rightarrow>
          (case activities_arg of
             None \<Rightarrow> key_error ''activities''
           | Some activities \<Rightarrow>
               (let restaurants = (case restaurants_arg of None \<Rightarrow> [] | Some rs \<Rightarrow> rs);
                    start_time = (case start_time_arg of None \<Rightarrow> ''09:00'' | Some t \<Rightarrow> t)
                in itinerary_head location start_time
                   @ concat (map timeline_line (timeline activities restaurants))
                   @ tips_heading @ concat travel_tips)))"

section \<open>The weather tool server: \<^verbatim>\<open>server.py\<close>\<close>

subsection \<open>Argument values, \<^verbatim>\<open>int(str)\<close> and \<^verbatim>\<open>urlencode\<close>\<close>

text \<open>
  The argument dictionary maps a parameter name to a JSON value. The schemas of the five
  weather tools declare strings, and for \<^verbatim>\<open>days\<close> an integer or a string, so a value is a
  string, an integer or \<^verbatim>\<open>None\<close> (JSON null); other JSON types are outside the model.
\<close>

datatype argval = ANone | AInt int | AStr string

type_synonym arguments = "string \<rightharpoonup> argval"

text \<open>
  \<^verbatim>\<open>int(s)\<close> on an ASCII text, base 10: the whitespace around the literal is skipped (the
  characters 9 to 13 and 32, the ones C's \<^verbatim>\<open>isspace\<close> knows; the separators 28 to 31 are not
  among them), then comes an optional sign, then decimal digits with single underscores
  allowed between digits; anything else raises \<^verbatim>\<open>ValueError\<close>, here \<^const>\<open>None\<close>.
\<close>

definition is_space :: "char \<Rightarrow> bool" where
  "is_space c = (let n = (of_char c :: nat) in (9 \<le> n \<and> n \<le> 13) \<or> n = 32)"

definition is_digit :: "char \<Rightarrow> bool" where
  "is_digit c = (let n = (of_char c :: nat) in 48 \<le> n \<and> n \<le> 57)"

definition digit_val :: "char \<Rightarrow> int" where
  "digit_val c = int (of_char c) - 48"

definition strip :: "string \<Rightarrow> string" where
  "strip s = rev (dropWhile is_space (rev (dropWhile is_space s)))"

fun parse_digits :: "string \<Rightarrow> int \<Rightarrow> int option" where
  "parse_digits [] acc = Some acc"
| "parse_digits (c # cs) acc =
     (if is_digit c then parse_digits cs (10 * acc + digit_val c)
      else if c = CHR ''_''
      then (case cs of
              [] \<Rightarrow> None
            | d # ds \<Rightarrow> if is_digit d then parse_digits cs acc else None)
      else None)"

definition parse_unsigned :: "string \<Rightarrow> int option" where
  "parse_unsigned s =
     (case s of [] \<Rightarrow> None | c # cs \<Rightarrow> if is_digit c then parse_digits s 0 else None)"

definition int_ascii :: "string \<Rightarrow> int option" where
  "int_ascii s =
     (case strip s of
        [] \<Rightarrow> None
      | c # cs \<Rightarrow>
          if c = CHR ''-'' then map_option uminus (parse_unsigned cs)
          else if c = CHR ''+'' then parse_unsigned cs
          else parse_unsigned (c # cs))"

text \<open>
  \<^verbatim>\<open>urllib.parse.urlencode\<close> of a dictionary of text and integers: each key and each
  \<^verbatim>\<open>str(value)\<close> goes through \<^verbatim>\<open>quote_plus\<close>, the pairs are joined as \<^verbatim>\<open>k=v\<close> with \<^verbatim>\<open>&\<close>.
  \<^verbatim>\<open>quote_plus\<close> keeps letters, digits and \<^verbatim>\<open>_.-~\<close>, writes a space as \<^verbatim>\<open>+\<close> and every other
  byte of the UTF-8 text as \<^verbatim>\<open>%XX\<close> in upper-case hexadecimal.
\<close>

definition hex_digit :: "nat \<Rightarrow> char" where
  "hex_digit d = (if d < 10 then char_of (48 + d) else char_of (55 + d))"

definition is_unreserved :: "char \<Rightarrow> bool" where
  "is_unreserved c =
     (let n = (of_char c :: nat)
      in (48 \<le> n \<and> n \<le> 57) \<or> (65 \<le> n \<and> n \<le> 90) \<or> (97 \<le> n \<and> n \<le> 122)
         \<or> c = CHR ''_'' \<or> c = CHR ''.'' \<or> c = CHR ''-'' \<or> c = CHR ''~'')"

definition quote_char :: "char \<Rightarrow> string" where
  "quote_char c =
     (if c = CHR '' '' then ''+''
      else if is_unreserved c then [c]
      else [CHR ''%'', hex_digit (of_char c div 16), hex_digit (of_char c mod 16)])"

definition quote_plus :: "string \<Rightarrow> string" where
  "quote_plus s = concat (map quote_char s)"

fun join :: "'a list \<Rightarrow> 'a list list \<Rightarrow> 'a list" where
  "join sep [] = []"
| "join sep [x] = x"
| "join sep (x # y # ys) = x @ sep @ join sep (y # ys)"

definition str_of :: "argval \<Rightarrow> string" where
  "str_of v = (case v of ANone \<Rightarrow> ''None'' | AInt i \<Rightarrow> str_int i | AStr s \<Rightarrow> s)"

definition urlencode :: "(string \<times> argval) list \<Rightarrow> string" where
  "urlencode params =
     join ''&'' (map (\<lambda>(k, v). quote_plus k @ ''='' @ quote_plus (str_of v)) params)"

subsection \<open>The process environment and the weather provider\<close>

text \<open>
  What \<^verbatim>\<open>call_tool\<close> reads from outside the program is gathered in one record:
  \<^item> \<open>environ\<close>: the process environment after \<^verbatim>\<open>load_dotenv()\<close>;
  \<^item> \<open>http_get\<close>: the provider's answer to the GET of a URL, as \<^verbatim>\<open>make_request\<close> sees it: a
    success with its decoded JSON body (of a type \<open>'j\<close> left open), a status for which
    \<^verbatim>\<open>raise_for_status()\<close> raises \<^verbatim>\<open>HTTPStatusError\<close>, or any other exception (network
    failure, timeout, a body that is not JSON) with its message;
  \<^item> \<open>render\<close>: the text block the handler of a tool builds from the decoded body, or the
    message of the exception raised while reading the body (a missing field). Of the
    arguments only \<^verbatim>\<open>arguments.get("aqi")\<close> is read at that point (by
    \<^verbatim>\<open>get_current_weather\<close>), so it is passed along with the tool's name. The blocks format
    provider data, floating point numbers among them, and no statement below depends on
    their wording;
  \<^item> \<open>int_error\<close>: the message of the \<^verbatim>\<open>ValueError\<close> that \<^verbatim>\<open>int(s)\<close> raises for the text
    \<open>s\<close> (it embeds \<^verbatim>\<open>repr(s)\<close>);
  \<^item> \<open>int_other\<close>: what \<^verbatim>\<open>int(s)\<close> gives (\<^const>\<open>None\<close> for \<^verbatim>\<open>ValueError\<close>) on the texts
    that \<^const>\<open>int_ascii\<close> does not cover: a text with a non-ASCII character, where the
    answer follows the interpreter's Unicode tables (other spaces and decimal digits are
    read too), and a text of more than 640 characters, where the interpreter's limit on
    the digits of a literal may refuse it (4300 digits unless configured otherwise, and
    never set below 640).

  The body of an error response, as the handler of \<^verbatim>\<open>HTTPStatusError\<close> reads it:
  not JSON (or anything else that makes the inner \<^verbatim>\<open>try\<close> raise), JSON without an
  \<^verbatim>\<open>error\<close> entry, or an \<^verbatim>\<open>error\<close> object with or without a \<^verbatim>\<open>message\<close>.
\<close>

datatype err_body = NotJson | NoErrorEntry | ErrorEntry "string option"

datatype 'j reply = Success 'j | StatusError nat err_body | Failure string

record 'j world =
  environ :: "string \<rightharpoonup> string"
  http_get :: "string \<Rightarrow> 'j reply"
  render :: "string \<Rightarrow> argval option \<Rightarrow> 'j \<Rightarrow> string + string"
  int_error :: "string \<Rightarrow> string"
  int_other :: "string \<Rightarrow> int option"

text \<open>The exceptions that reach the two \<^verbatim>\<open>except\<close> clauses of \<^verbatim>\<open>call_tool\<close>:
  \<^verbatim>\<open>httpx.HTTPStatusError\<close> with the status and body of its response, and any other
  \<^verbatim>\<open>Exception\<close> with the text of \<^verbatim>\<open>str(e)\<close>.\<close>

datatype exn = HTTPStatusError nat err_body | Exception string

text \<open>\<^verbatim>\<open>API_KEY = os.getenv("WEATHERAPI_KEY", "")\<close> and \<^verbatim>\<open>BASE_URL\<close>\<close>

definition API_KEY :: "'j world \<Rightarrow> string" where
  "API_KEY w = (case environ w ''WEATHERAPI_KEY'' of None \<Rightarrow> [] | Some v \<Rightarrow> v)"

definition BASE_URL :: string where
  "BASE_URL = ''http://api.weatherapi.com/v1''"

text \<open>
  \<^verbatim>\<open>
  def build_url(endpoint, params):
      params["key"] = API_KEY
      query_string = urlencode({k: v for k, v in params.items() if v is not None})
      return f"{BASE_URL}/{endpoint}.json?{query_string}"
  \<close>
  The dictionaries the handlers pass never hold the key \<^verbatim>\<open>key\<close>, so the assignment adds
  it last.
\<close>

definition build_url :: "'j world \<Rightarrow> string \<Rightarrow> (string \<times> argval) list \<Rightarrow> string" where
  "build_url w endpoint params =
     BASE_URL @ ''/'' @ endpoint @ ''.json?''
     @ urlencode (filter (\<lambda>(k, v). v \<noteq> ANone) (params @ [(''key'', AStr (API_KEY w))]))"

definition make_request :: "'j world \<Rightarrow> string \<Rightarrow> exn + 'j" where
  "make_request w url =
     (case http_get w url of
        Success data \<Rightarrow> Inr data
      | StatusError code body \<Rightarrow> Inl (HTTPStatusError code body)
      | Failure msg \<Rightarrow> Inl (Exception msg))"

subsection \<open>\<^verbatim>\<open>call_tool\<close>\<close>

text \<open>\<^verbatim>\<open>arguments[k]\<close> (a \<^verbatim>\<open>KeyError\<close>, whose text is the quoted key, when \<open>k\<close> is absent)
  and \<^verbatim>\<open>arguments.get(k, default)\<close>.\<close>

definition get_item :: "arguments \<Rightarrow> string \<Rightarrow> exn + argval" where
  "get_item arguments k =
     (case arguments k of
        None \<Rightarrow> Inl (Exception ([CHR 0x27] @ k @ [CHR 0x27]))
      | Some v \<Rightarrow> Inr v)"

definition get_or :: "arguments \<Rightarrow> string \<Rightarrow> argval \<Rightarrow> argval" where
  "get_or arguments k fallback = (case arguments k of None \<Rightarrow> fallback | Some v \<Rightarrow> v)"

text \<open>
  \<^verbatim>\<open>int(s)\<close> on any text: \<^const>\<open>int_ascii\<close> on an ASCII text of at most 640 characters,
  the interpreter's answer otherwise.
\<close>

definition in_ascii_model :: "string \<Rightarrow> bool" where
  "in_ascii_model s = (list_all (\<lambda>c. (of_char c :: nat) < 128) s \<and> length s \<le> 640)"

definition int_of_str :: "'j world \<Rightarrow> string \<Rightarrow> int option" where
  "int_of_str w s = (if in_ascii_model s then int_ascii s else int_other w s)"

text \<open>
  \<^verbatim>\<open>
  days = arguments.get("days", 3)
  if isinstance(days, str):
      days = int(days)
  \<close>
\<close>

definition coerce_days :: "'j world \<Rightarrow> arguments \<Rightarrow> exn + argval" where
  "coerce_days w arguments =
     (case get_or arguments ''days'' (AInt 3) of
        AStr s \<Rightarrow>
          (case int_of_str w s of
             None \<Rightarrow> Inl (Exception (int_error w s))
           | Some n \<Rightarrow> Inr (AInt n))
      | days \<Rightarrow> Inr days)"

text \<open>
  What a handler does once its parameter dictionary is built (or building it raised):
  \<^verbatim>\<open>url = build_url(endpoint, params)\<close>, \<^verbatim>\<open>data = await make_request(url)\<close>, then the text
  block. The second component lists the URLs requested, in order; a handler requests at
  most one.
\<close>

definition request_and_render ::
  "'j world \<Rightarrow> string \<Rightarrow> arguments \<Rightarrow> string \<Rightarrow> exn + (string \<times> argval) list
     \<Rightarrow> (exn + string) \<times> string list" where
  "request_and_render w name arguments endpoint params_or_exn =
     (case params_or_exn of
        Inl e \<Rightarrow> (Inl e, [])
      | Inr params \<Rightarrow>
          (let url = build_url w endpoint params in
           case make_request w url of
             Inl e \<Rightarrow> (Inl e, [url])
           | Inr data \<Rightarrow>
               (case render w name (arguments ''aqi'') data of
                  Inl msg \<Rightarrow> (Inl (Exception msg), [url])
                | Inr text \<Rightarrow> (Inr text, [url]))))"

text \<open>The \<^verbatim>\<open>try\<close> block of \<^verbatim>\<open>call_tool\<close>: the dispatch on the tool name. Each dictionary
  literal evaluates its entries in order, so the first missing required key raises.\<close>

definition try_block :: "'j world \<Rightarrow> string \<Rightarrow> arguments \<Rightarrow> (exn + string) \<times> string list" where
  "try_block w name arguments =
     (if name = ''get_current_weather'' then
        request_and_render w name arguments ''current''
          (case get_item arguments ''q'' of
             Inl e \<Rightarrow> Inl e
           | Inr q \<Rightarrow>
               Inr [(''q'', q),
                    (''aqi'', get_or arguments ''aqi'' (AStr ''no'')),
                    (''lang'', get_or arguments ''lang'' (AStr ''en''))])
      else if name = ''get_forecast'' then
        request_and_render w name arguments ''forecast''
          (case coerce_days w arguments of
             Inl e \<Rightarrow> Inl e
           | Inr days \<Rightarrow>
               (case get_item arguments ''q'' of
                  Inl e \<Rightarrow> Inl e
                | Inr q \<Rightarrow>
                    Inr [(''q'', q),
                         (''days'', days),
                         (''aqi'', get_or arguments ''aqi'' (AStr ''no'')),
                         (''alerts'', get_or arguments ''alerts'' (AStr ''yes'')),
                         (''lang'', get_or arguments ''lang'' (AStr ''en''))]))
      else if name = ''get_history'' then
        request_and_render w name arguments ''history''
          (case get_item arguments ''q'' of
             Inl e \<Rightarrow> Inl e
           | Inr q \<Rightarrow>
               (case get_item arguments ''dt'' of
                  Inl e \<Rightarrow> Inl e
                | Inr dt \<Rightarrow>
                    Inr [(''q'', q),
                         (''dt'', dt),
                         (''end_dt'', get_or arguments ''end_dt'' ANone),
                         (''lang'', get_or arguments ''lang'' (AStr ''en''))]))
      else if name = ''search_location'' then
        request_and_render w name arguments ''search''
          (case get_item arguments ''q'' of
             Inl e \<Rightarrow> Inl e
           | Inr q \<Rightarrow> Inr [(''q'', q)])
      else if name = ''get_astronomy'' then
        request_and_render w name arguments ''astronomy''
          (case get_item arguments ''q'' of
             Inl e \<Rightarrow> Inl e
           | Inr q \<Rightarrow> Inr [(''q'', q), (''dt'', get_or arguments ''dt'' ANone)])
      else (Inr (''Strumento sconosciuto: '' @ name), []))"

text \<open>
  The two \<^verbatim>\<open>except\<close> clauses.
  \<^verbatim>\<open>
  except httpx.HTTPStatusError as e:
      error_msg = f"Errore HTTP {e.response.status_code}"
      try:
          error_data = e.response.json()
          if "error" in error_data:
              error_msg += f": {error_data['error'].get('message', 'Errore sconosciuto')}"
      except:
          pass
      return [TextContent(type="text", text=error_msg)]
  except Exception as e:
      return [TextContent(type="text", text=f"Errore: {str(e)}")]
  \<close>
\<close>

definition except_text :: "exn \<Rightarrow> string" where
  "except_text e =
     (case e of
        HTTPStatusError code body \<Rightarrow>
          ''Errore HTTP '' @ str_nat code
          @ (case body of
               ErrorEntry (Some message) \<Rightarrow> '': '' @ message
             | ErrorEntry None \<Rightarrow> '': Errore sconosciuto''
             | _ \<Rightarrow> [])
      | Exception msg \<Rightarrow> ''Errore: '' @ msg)"

definition credential_error :: string where
  "credential_error =
     ''Errore: WEATHERAPI_KEY non configurata. ''
     @ ''Imposta la variabile d'' @ [CHR 0x27] @ ''ambiente con la tua API key.''"

text \<open>The outcome of one invocation: the text of the single \<^verbatim>\<open>TextContent\<close> returned, and
  the URLs of the HTTP requests issued while computing it.\<close>

record outcome =
  payload :: string
  requests :: "string list"

definition call_tool :: "'j world \<Rightarrow> string \<Rightarrow> arguments \<Rightarrow> outcome" where
  "call_tool w name arguments =
     (if API_KEY w = [] then \<lparr>payload = credential_error, requests = []\<rparr>
      else
        (case try_block w name arguments of
           (Inr text, urls) \<Rightarrow> \<lparr>payload = text, requests = urls\<rparr>
         | (Inl e, urls) \<Rightarrow> \<lparr>payload = except_text e, requests = urls\<rparr>))"

text \<open>The parameter dictionary the \<^verbatim>\<open>get_forecast\<close> handler passes to \<^verbatim>\<open>build_url\<close>, for
  a location \<open>q\<close> and a number of days, named for the statements about that handler.\<close>

definition forecast_params :: "arguments \<Rightarrow> argval \<Rightarrow> argval \<Rightarrow> (string \<times> argval) list" where
  "forecast_params arguments q days =
     [(''q'', q), (''days'', days), (''aqi'', get_or arguments ''aqi'' (AStr ''no'')),
      (''alerts'', get_or arguments ''alerts'' (AStr ''yes'')),
      (''lang'', get_or arguments ''lang'' (AStr ''en''))]"

text \<open>The names \<^verbatim>\<open>list_tools\<close> registers, in its order.\<close>

definition tool_names :: "string list" where
  "tool_names =
     [''get_current_weather'', ''get_forecast'', ''get_history'', ''search_location'',
      ''get_astronomy'']"

text \<open>
  A sample environment for concrete runs: the key \<^verbatim>\<open>k\<close> is configured, the provider
  answers every request with a success whose body carries no data, and every text block is
  \<^verbatim>\<open>ok\<close>. The runs below pass short ASCII texts only, so \<open>int_other\<close> is never consulted in
  them. \<open>no_key_world\<close> is the same with the variable \<^verbatim>\<open>WEATHERAPI_KEY\<close> unset.
\<close>

definition sample_world :: "unit world" where
  "sample_world =
     \<lparr>environ = [''WEATHERAPI_KEY'' \<mapsto> ''k''],
      http_get = (\<lambda>url. Success ()),
      render = (\<lambda>name aqi data. Inr ''ok''),
      int_error = (\<lambda>s. ''invalid literal for int() with base 10: '' @ [CHR 0x27] @ s @ [CHR 0x27]),
      int_other = (\<lambda>s. None)\<rparr>"

definition no_key_world :: "unit world" where
  "no_key_world = sample_world\<lparr>environ := Map.empty\<rparr>"

section \<open>The chat front end: \<^verbatim>\<open>app.py\<close>\<close>

text \<open>
  The front end measures and slices text (\<^verbatim>\<open>len(response)\<close>, \<^verbatim>\<open>response[:200]\<close>), and
  Python counts code points there. So in this section a \<^verbatim>\<open>str\<close> is the list of its code
  points, and an ASCII literal of the source is written with \<open>ascii\<close>.
\<close>

type_synonym ustr = "nat list"

definition ascii :: "string \<Rightarrow> ustr" where
  "ascii s = map of_char s"

subsection \<open>\<^verbatim>\<open>stream_tool_response\<close>\<close>

text \<open>
  Of a \<^verbatim>\<open>cl.Message\<close> the function uses \<^verbatim>\<open>stream_token\<close> and the attribute \<^verbatim>\<open>elements\<close>
  (a list, or \<^verbatim>\<open>None\<close>). The model keeps the tokens streamed so far, in order, and the
  elements. A \<^verbatim>\<open>cl.Text\<close> element is the record of its four keyword arguments. The pauses
  between tokens (\<^verbatim>\<open>asyncio.sleep\<close>) are not modelled.
\<close>

record element =
  el_name :: ustr
  el_content :: ustr
  el_display :: ustr
  el_language :: ustr

record message =
  streamed :: "ustr list"
  elements :: "element list option"

definition stream_token :: "ustr \<Rightarrow> message \<Rightarrow> message" where
  "stream_token token msg = msg\<lparr>streamed := streamed msg @ [token]\<rparr>"

text \<open>
  \<^verbatim>\<open>
  async def stream_tool_response(tool_name, response, msg):
      await msg.stream_token(f"(U+1F4E6) **Risposta da `{tool_name}`:**\n\n")
      if len(response) > 200:
          preview = response[:200] + "..."
          await msg.stream_token(f"```\n{preview}\n```\n\n")
          elements = msg.elements or []
          elements.append(cl.Text(name=f"tool_response_{tool_name}", content=response,
                                  display="inline", language="text"))
          msg.elements = elements
      else:
          for char in response:
              await msg.stream_token(char)
              await asyncio.sleep(0.01)
          await msg.stream_token("\n\n")
  \<close>
\<close>

definition stream_tool_response :: "ustr \<Rightarrow> ustr \<Rightarrow> message \<Rightarrow> message" where
  "stream_tool_response tool_name response msg =
     (let msg1 = stream_token
                   ([0x1F4E6] @ ascii '' **Risposta da `'' @ tool_name
                    @ ascii ''`:**\<newline>\<newline>'') msg
      in if length response > 200 then
           (let preview = take 200 response @ ascii ''...'';
                msg2 = stream_token
                         (ascii ''```\<newline>'' @ preview @ ascii ''\<newline>```\<newline>\<newline>'') msg1;
                elems = (case elements msg2 of None \<Rightarrow> [] | Some es \<Rightarrow> es)
            in msg2\<lparr>elements :=
                      Some (elems
                            @ [\<lparr>el_name = ascii ''tool_response_'' @ tool_name,
                                el_content = response,
                                el_display = ascii ''inline'',
                                el_language = ascii ''text''\<rparr>])\<rparr>)
         else
           stream_token (ascii ''\<newline>\<newline>'')
             (foldl (\<lambda>m char. stream_token [char] m) msg1 response))"

subsection \<open>The transcript walk of \<^verbatim>\<open>main\<close> and the turn record\<close>

text \<open>
  The entries of \<^verbatim>\<open>response["messages"]\<close>, told apart by the name of their class as
  \<^verbatim>\<open>main\<close> does: an \<^verbatim>\<open>AIMessage\<close> with its content and its list of tool calls, a
  \<^verbatim>\<open>ToolMessage\<close> with its \<^verbatim>\<open>name\<close> attribute (a text or \<^verbatim>\<open>None\<close>) and its content, and
  every other class (\<^verbatim>\<open>HumanMessage\<close>, ...), which the walk skips. A tool call is a
  dictionary; the walk reads its \<^verbatim>\<open>name\<close> with \<^verbatim>\<open>tool_call.get("name", "unknown")\<close>, and
  its \<^verbatim>\<open>args\<close> only to print them, so the model keeps the optional name and the text
  \<^verbatim>\<open>json.dumps(tool_call.get("args", {}), indent=2, ensure_ascii=False)\<close>.
\<close>

record tool_call =
  tc_name :: "ustr option"
  tc_args_json :: ustr

datatype response_msg =
    AIMessage ustr "tool_call list"
  | ToolMessage "ustr option" ustr
  | OtherMessage

definition tool_call_name :: "tool_call \<Rightarrow> ustr" where
  "tool_call_name tool_call =
     (case tc_name tool_call of None \<Rightarrow> ascii ''unknown'' | Some n \<Rightarrow> n)"

text \<open>The state of the walk: \<^verbatim>\<open>tool_calls_made\<close>, \<^verbatim>\<open>step_content\<close> and
  \<^verbatim>\<open>final_response\<close>.\<close>

record walk =
  tool_calls_made :: "ustr list"
  step_content :: "ustr list"
  final_response :: ustr

text \<open>
  The inner loop \<^verbatim>\<open>for tool_call in response_msg.tool_calls\<close>:
  \<^verbatim>\<open>
  tool_name = tool_call.get("name", "unknown")
  tool_args = tool_call.get("args", {})
  tool_calls_made.append(tool_name)
  step_content.append(f"**Tool:** `{tool_name}`")
  step_content.append(f"```json\n{json.dumps(tool_args, indent=2, ensure_ascii=False)}\n```")
  \<close>
  (The \<^verbatim>\<open>cl.Step\<close> blocks of the loop do not touch this state; they follow below.)
\<close>

definition walk_tool_call :: "walk \<Rightarrow> tool_call \<Rightarrow> walk" where
  "walk_tool_call s tool_call =
     (let tool_name = tool_call_name tool_call in
      s\<lparr>tool_calls_made := tool_calls_made s @ [tool_name],
        step_content :=
          step_content s
          @ [ascii ''**Tool:** `'' @ tool_name @ ascii ''`'',
             ascii ''```json\<newline>'' @ tc_args_json tool_call @ ascii ''\<newline>```'']\<rparr>)"

text \<open>
  One iteration of \<^verbatim>\<open>for i, response_msg in enumerate(response["messages"])\<close>:
  \<^verbatim>\<open>
  if msg_type == "AIMessage" and hasattr(response_msg, 'tool_calls') and response_msg.tool_calls:
      for tool_call in response_msg.tool_calls: ...
  elif msg_type == "ToolMessage":
      tool_name = getattr(response_msg, 'name', 'unknown')
      tool_content = response_msg.content
      step_content.append(f"**Risposta da {tool_name}:**")
      step_content.append(f"```\n{tool_content}\n```")
      step_content.append("---")
  elif msg_type == "AIMessage" and response_msg.content:
      final_response = response_msg.content
  \<close>
\<close>

definition walk_step :: "walk \<Rightarrow> response_msg \<Rightarrow> walk" where
  "walk_step s response_msg =
     (case response_msg of
        AIMessage content tool_calls \<Rightarrow>
          if tool_calls \<noteq> [] then foldl walk_tool_call s tool_calls
          else if content \<noteq> [] then s\<lparr>final_response := content\<rparr>
          else s
      | ToolMessage name_attr tool_content \<Rightarrow>
          (let tool_name = (case name_attr of None \<Rightarrow> ascii ''None'' | Some n \<Rightarrow> n) in
           s\<lparr>step_content :=
               step_content s
               @ [ascii ''**Risposta da '' @ tool_name @ ascii '':**'',
                  ascii ''```\<newline>'' @ tool_content @ ascii ''\<newline>```'',
                  ascii ''---'']\<rparr>)
      | OtherMessage \<Rightarrow> s)"

definition walk_transcript :: "response_msg list \<Rightarrow> walk" where
  "walk_transcript messages =
     foldl walk_step \<lparr>tool_calls_made = [], step_content = [], final_response = []\<rparr> messages"

text \<open>
  The record appended to \<^verbatim>\<open>conversation_history\<close>, and the session as \<^verbatim>\<open>main\<close> uses it:
  the agent (absent when the chat did not start properly) and the history. An agent maps
  the user's message to the messages of the turn, or raises (\<^const>\<open>None\<close>); \<^verbatim>\<open>main\<close> then
  reports the failure and appends nothing, as it does when there is no agent. The
  timestamp \<^verbatim>\<open>datetime.now().isoformat()\<close> is an argument.
\<close>

record turn =
  timestamp :: ustr
  user :: ustr
  assistant :: ustr
  tools_used :: "ustr list"

record session =
  agent :: "(ustr \<Rightarrow> response_msg list option) option"
  conversation_history :: "turn list"

definition main :: "ustr \<Rightarrow> ustr \<Rightarrow> session \<Rightarrow> session" where
  "main now user_message sess =
     (case agent sess of
        None \<Rightarrow> sess
      | Some ag \<Rightarrow>
          (case ag user_message of
             None \<Rightarrow> sess
           | Some messages \<Rightarrow>
               (let w = walk_transcript messages in
                sess\<lparr>conversation_history :=
                       conversation_history sess
                       @ [\<lparr>timestamp = now, user = user_message,
                           assistant = final_response w,
                           tools_used = tool_calls_made w\<rparr>]\<rparr>)))"

text \<open>The tool calls of a transcript, in the order they appear: those of its
  \<^verbatim>\<open>AIMessage\<close> entries, entry by entry.\<close>

definition transcript_tool_calls :: "response_msg list \<Rightarrow> tool_call list" where
  "transcript_tool_calls messages =
     concat (map (\<lambda>m. case m of AIMessage content tool_calls \<Rightarrow> tool_calls | _ \<Rightarrow> []) messages)"

subsection \<open>What the interface shows of a tool result\<close>







text \<open>
  A sample turn for concrete runs: the user's message, a call of \<^verbatim>\<open>get_forecast\<close> and its
  result, a call of \<^verbatim>\<open>suggest_activities\<close> and its result, and the final answer; and a
  session, with an empty history, whose agent answers every message with this transcript.
\<close>

definition sample_transcript :: "response_msg list" where
  "sample_transcript =
     [OtherMessage,
      AIMessage [] [\<lparr>tc_name = Some (ascii ''get_forecast''), tc_args_json = ascii ''{}''\<rparr>],
      ToolMessage (Some (ascii ''get_forecast'')) (ascii ''Sunny''),
      AIMessage [] [\<lparr>tc_name = Some (ascii ''suggest_activities''), tc_args_json = ascii ''{}''\<rparr>],
      ToolMessage (Some (ascii ''suggest_activities'')) (ascii ''Parchi''),
      AIMessage (ascii ''Domani sole'') []]"

definition sample_agent :: "ustr \<Rightarrow> response_msg list option" where
  "sample_agent user_message = Some sample_transcript"

definition sample_session :: session where
  "sample_session = \<lparr>agent = Some sample_agent, conversation_history = []\<rparr>"

section \<open>Verified properties\<close>

subsection \<open>Text search\<close>

lemmas text_eval = lower_def lower_char_def char_of_eq_iff

lemma startswith_iff: "startswith s sub = (\<exists>post. s = sub @ post)"
  by (induction s sub rule: startswith.induct) auto

text \<open>\<^const>\<open>str_in\<close> is substring containment, as Python's \<^verbatim>\<open>in\<close> on text.\<close>

lemma str_in_iff: "str_in sub s = (\<exists>pre post. s = pre @ sub @ post)"
proof (induction s)
  case Nil
  then show ?case by auto
next
  case (Cons c cs)
  show ?case
  proof
    assume "str_in sub (c # cs)"
    then consider "startswith (c # cs) sub" | "str_in sub cs" by auto
    then show "\<exists>pre post. c # cs = pre @ sub @ post"
    proof cases
      case 1
      then obtain post where "c # cs = sub @ post" by (auto simp: startswith_iff)
      then have "c # cs = [] @ sub @ post" by simp
      then show ?thesis by blast
    next
      case 2
      then obtain pre post where "cs = pre @ sub @ post" using Cons.IH by auto
      then have "c # cs = (c # pre) @ sub @ post" by simp
      then show ?thesis by blast
    qed
  next
    assume "\<exists>pre post. c # cs = pre @ sub @ post"
    then obtain pre post where e: "c # cs = pre @ sub @ post" by auto
    show "str_in sub (c # cs)"
    proof (cases pre)
      case Nil
      then have "startswith (c # cs) sub" using e by (auto simp: startswith_iff)
      then show ?thesis by simp
    next
      case (Cons p ps)
      then have "cs = ps @ sub @ post" using e by simp
      then have "str_in sub cs" using Cons.IH by blast
      then show ?thesis by simp
    qed
  qed
qed

lemma lower_idem: "lower (lower s) = lower s"
  by (induction s) (auto simp: lower_def lower_char_def)

subsection \<open>\<^verbatim>\<open>classify_weather\<close>\<close>

lemma overcast_no_keyword:
  "\<not> rain_text ''Overcast'' \<and> \<not> snow_text ''Overcast'' \<and> \<not> clear_text ''Overcast''"
  by (simp add: text_eval)

text \<open>
  Claim C1, as the code has it. For a condition text that holds none of the rain, snow
  and clear-sky keywords, \<^const>\<open>classify_weather\<close> returns \<^verbatim>\<open>cold\<close> below 5 degrees,
  \<^verbatim>\<open>mild\<close> from 5 to below 18, and \<^verbatim>\<open>partly_cloudy\<close> from 18 upwards, however hot it is:
  the fallback never returns \<^verbatim>\<open>hot\<close>. (The test \<^verbatim>\<open>temp > 28\<close> stands inside the clear-sky
  branch only.)
\<close>

theorem classify_weather_keyword_free:
  assumes "\<not> rain_text c" and "\<not> snow_text c" and "\<not> clear_text c"
  shows "classify_weather c t =
           (if t < 5 then ''cold'' else if t < 18 then ''mild'' else ''partly_cloudy'')
         \<and> classify_weather c t \<noteq> ''hot''"
  using assms by (simp add: classify_weather_def Let_def)

theorem classify_weather_keyword_free_witness:
  "\<not> rain_text ''Overcast'' \<and> \<not> snow_text ''Overcast'' \<and> \<not> clear_text ''Overcast''
   \<and> classify_weather ''Overcast'' 35 = ''partly_cloudy''
   \<and> classify_weather ''Overcast'' 3 = ''cold''
   \<and> classify_weather ''Overcast'' 10 = ''mild''"
  using classify_weather_keyword_free [of "''Overcast''" 35]
    classify_weather_keyword_free [of "''Overcast''" 3]
    classify_weather_keyword_free [of "''Overcast''" 10]
    overcast_no_keyword
  by simp

text \<open>
  The claim as the specification words it fails: \<^verbatim>\<open>Overcast\<close> holds no keyword and 35 is
  above 28, yet the result is not \<^verbatim>\<open>hot\<close>.
\<close>

theorem overcast_35_not_hot:
  "\<not> rain_text ''Overcast'' \<and> \<not> snow_text ''Overcast'' \<and> \<not> clear_text ''Overcast''
   \<and> (28::real) < 35 \<and> classify_weather ''Overcast'' 35 \<noteq> ''hot''"
  by (simp add: classify_weather_def text_eval)

text \<open>
  Claim C4. The keywords are tested before the temperature and on the lower-cased text:
  a text with \<^verbatim>\<open>rain\<close> or \<^verbatim>\<open>pioggia\<close> is \<^verbatim>\<open>rain\<close> at every temperature; without those, a
  text with \<^verbatim>\<open>snow\<close> or \<^verbatim>\<open>neve\<close> is \<^verbatim>\<open>snow\<close> at every temperature; without those, a text
  with \<^verbatim>\<open>sunny\<close>, \<^verbatim>\<open>clear\<close> or \<^verbatim>\<open>sereno\<close> is \<^verbatim>\<open>hot\<close> above 28 degrees and \<^verbatim>\<open>sunny\<close>
  otherwise; two texts that differ only in case are classified alike. In particular
  \<^verbatim>\<open>classify_weather("Heavy rain", 10)\<close> is \<^verbatim>\<open>rain\<close> (as at any temperature),
  \<^verbatim>\<open>classify_weather("Clear", 30)\<close> is \<^verbatim>\<open>hot\<close>, \<^verbatim>\<open>classify_weather("Clear", 20)\<close> is
  \<^verbatim>\<open>sunny\<close> and \<^verbatim>\<open>classify_weather("Overcast", 3)\<close> is \<^verbatim>\<open>cold\<close>; the Italian terms are matched
  in any case.
\<close>

theorem classify_weather_keywords_first:
  "(rain_text c1 \<longrightarrow> classify_weather c1 t1 = ''rain'')
   \<and> (\<not> rain_text c2 \<and> snow_text c2 \<longrightarrow> classify_weather c2 t2 = ''snow'')
   \<and> (\<not> rain_text c3 \<and> \<not> snow_text c3 \<and> clear_text c3 \<longrightarrow>
        classify_weather c3 t3 = (if t3 > 28 then ''hot'' else ''sunny''))
   \<and> (lower c4 = lower c5 \<longrightarrow> classify_weather c4 t4 = classify_weather c5 t4)
   \<and> classify_weather ''Heavy rain'' 10 = ''rain''
   \<and> classify_weather ''Heavy rain'' t5 = ''rain''
   \<and> classify_weather ''Clear'' 30 = ''hot''
   \<and> classify_weather ''Clear'' 20 = ''sunny''
   \<and> classify_weather ''Overcast'' 3 = ''cold''
   \<and> classify_weather ''Pioggia leggera'' t6 = ''rain''
   \<and> classify_weather ''NEVE'' t7 = ''snow''
   \<and> classify_weather ''Cielo Sereno'' 20 = ''sunny''"
proof -
  have general:
    "(rain_text c1 \<longrightarrow> classify_weather c1 t1 = ''rain'')
     \<and> (\<not> rain_text c2 \<and> snow_text c2 \<longrightarrow> classify_weather c2 t2 = ''snow'')
     \<and> (\<not> rain_text c3 \<and> \<not> snow_text c3 \<and> clear_text c3 \<longrightarrow>
          classify_weather c3 t3 = (if t3 > 28 then ''hot'' else ''sunny''))
     \<and> (lower c4 = lower c5 \<longrightarrow> classify_weather c4 t4 = classify_weather c5 t4)"
    by (simp add: classify_weather_def Let_def)
  have examples:
    "classify_weather ''Heavy rain'' 10 = ''rain''"
    "classify_weather ''Heavy rain'' t5 = ''rain''"
    "classify_weather ''Clear'' 30 = ''hot''"
    "classify_weather ''Clear'' 20 = ''sunny''"
    "classify_weather ''Overcast'' 3 = ''cold''"
    "classify_weather ''Pioggia leggera'' t6 = ''rain''"
    "classify_weather ''NEVE'' t7 = ''snow''"
    "classify_weather ''Cielo Sereno'' 20 = ''sunny''"
    by (simp_all add: classify_weather_def text_eval)
  from general examples show ?thesis by simp
qed

theorem classify_weather_keywords_first_witness:
  "rain_text ''HEAVY Rain and snow'' \<and> classify_weather ''HEAVY Rain and snow'' (-40) = ''rain''
   \<and> \<not> rain_text ''Neve, clear later'' \<and> snow_text ''Neve, clear later''
   \<and> classify_weather ''Neve, clear later'' 40 = ''snow''
   \<and> \<not> rain_text ''SUNNY'' \<and> \<not> snow_text ''SUNNY'' \<and> clear_text ''SUNNY''
   \<and> classify_weather ''SUNNY'' 2 = ''sunny''
   \<and> lower ''CLEAR'' = lower ''clear''
   \<and> classify_weather ''CLEAR'' 30 = classify_weather ''clear'' 30"
  using classify_weather_keywords_first
    [where ?c1.0 = "''HEAVY Rain and snow''" and ?t1.0 = "-40"
       and ?c2.0 = "''Neve, clear later''" and ?t2.0 = 40
       and ?c3.0 = "''SUNNY''" and ?t3.0 = 2
       and ?c4.0 = "''CLEAR''" and ?c5.0 = "''clear''" and ?t4.0 = 30]
  by (simp add: text_eval)

subsection \<open>\<^verbatim>\<open>suggest_restaurants\<close>\<close>

lemma restaurants_for_cases:
  "restaurants_for location =
     (if location = ''Milano'' then
        [\<lparr>r_name = ''Trattoria Milanese'', r_type = ''tradizionale'', r_price = euro @ euro,
          r_specialty = ''Cucina milanese''\<rparr>,
         \<lparr>r_name = ''Luini'', r_type = ''street_food'', r_price = euro,
          r_specialty = ''Panzerotti''\<rparr>,
         \<lparr>r_name = ''Eataly Smeraldo'', r_type = ''food_hall'', r_price = euro @ euro,
          r_specialty = ''Prodotti italiani''\<rparr>]
      else if location = ''Roma'' then
        [\<lparr>r_name = ''Roscioli'', r_type = ''bistrot'', r_price = euro @ euro @ euro,
          r_specialty = ''Cucina romana''\<rparr>,
         \<lparr>r_name = ''Trapizzino'', r_type = ''street_food'', r_price = euro,
          r_specialty = ''Trapizzini''\<rparr>]
      else
        [\<lparr>r_name = ''Ristorante Locale'', r_type = ''tradizionale'', r_price = euro @ euro,
          r_specialty = ''Cucina locale''\<rparr>])"
  by (simp add: restaurants_for_def RESTAURANTS_DB_def)

lemma filtered_all: "filtered_restaurants location (euro @ euro) = restaurants_for location"
  by (simp add: filtered_restaurants_def)

lemma filtered_exact:
  "budget \<noteq> euro @ euro \<Longrightarrow>
   filtered_restaurants location budget = filter (\<lambda>r. r_price r = budget) (restaurants_for location)"
  by (simp add: filtered_restaurants_def)

text \<open>
  Claim C3. \<^verbatim>\<open>suggest_restaurants\<close> takes the list of the location, and the default list for
  every location other than \<^verbatim>\<open>Milano\<close> and \<^verbatim>\<open>Roma\<close>; a budget other than two euro signs
  keeps exactly the entries whose price equals it; the budget of two euro signs (also the
  default when no budget is given) keeps every entry, whatever its price; and the text
  lists the first three entries kept, so at most three.
\<close>

theorem suggest_restaurants_filter:
  "(location \<noteq> ''Milano'' \<and> location \<noteq> ''Roma'' \<longrightarrow>
      restaurants_for location =
        [\<lparr>r_name = ''Ristorante Locale'', r_type = ''tradizionale'', r_price = euro @ euro,
          r_specialty = ''Cucina locale''\<rparr>])
   \<and> (budget \<noteq> euro @ euro \<longrightarrow>
        filtered_restaurants location budget
          = filter (\<lambda>r. r_price r = budget) (restaurants_for location))
   \<and> filtered_restaurants location (euro @ euro) = restaurants_for location
   \<and> suggest_restaurants (Some location) meal_type_arg cuisine_type_arg (Some budget)
       = restaurants_text location (case meal_type_arg of None \<Rightarrow> ''lunch'' | Some m \<Rightarrow> m)
           budget (filtered_restaurants location budget)
   \<and> suggest_restaurants (Some location) meal_type_arg cuisine_type_arg None
       = restaurants_text location (case meal_type_arg of None \<Rightarrow> ''lunch'' | Some m \<Rightarrow> m)
           (euro @ euro) (restaurants_for location)
   \<and> (\<exists>listed. length listed \<le> 3 \<and> listed = take 3 filtered
        \<and> restaurants_text location meal_type budget filtered
            = restaurants_text location meal_type budget []
              @ concat (map (\<lambda>(i, restaurant). restaurant_lines i restaurant)
                          (enumerate_from 1 listed)))"
  by (simp add: restaurants_for_cases filtered_all filtered_exact suggest_restaurants_def
      restaurants_text_def Let_def)

lemma euro_distinct: "euro \<noteq> euro @ euro" "euro @ euro @ euro \<noteq> euro @ euro"
  "euro @ euro @ euro \<noteq> euro" "euro @ euro \<noteq> euro" "euro \<noteq> []"
  by (simp_all add: euro_def)

theorem suggest_restaurants_filter_witness:
  "''Firenze'' \<noteq> ''Milano'' \<and> ''Firenze'' \<noteq> ''Roma''
   \<and> restaurants_for ''Firenze'' =
        [\<lparr>r_name = ''Ristorante Locale'', r_type = ''tradizionale'', r_price = euro @ euro,
          r_specialty = ''Cucina locale''\<rparr>]
   \<and> euro \<noteq> euro @ euro
   \<and> filtered_restaurants ''Roma'' euro
       = [\<lparr>r_name = ''Trapizzino'', r_type = ''street_food'', r_price = euro,
           r_specialty = ''Trapizzini''\<rparr>]
   \<and> filtered_restaurants ''Roma'' (euro @ euro)
       = [\<lparr>r_name = ''Roscioli'', r_type = ''bistrot'', r_price = euro @ euro @ euro,
           r_specialty = ''Cucina romana''\<rparr>,
          \<lparr>r_name = ''Trapizzino'', r_type = ''street_food'', r_price = euro,
           r_specialty = ''Trapizzini''\<rparr>]"
  using suggest_restaurants_filter [where location = "''Firenze''" and budget = euro]
    suggest_restaurants_filter [where location = "''Roma''" and budget = euro]
  by (simp add: restaurants_for_cases euro_distinct)


subsection \<open>\<^verbatim>\<open>create_itinerary\<close>\<close>

text \<open>Every time of a timeline comes from \<^const>\<open>times\<close>: the reads \<^verbatim>\<open>times[i*2]\<close> and
  \<^verbatim>\<open>times[i*2+1]\<close> are in range.\<close>

lemma timeline_loop_times_in_range:
  "i + length activities \<le> 3 \<Longrightarrow>
   (time, item, kind) \<in> set (timeline_loop i activities restaurants) \<Longrightarrow> time \<in> set times"
proof (induction activities arbitrary: i)
  case Nil
  then show ?case by simp
next
  case (Cons a as)
  from Cons.prems(1) have i: "i < 3" by simp
  then have "i = 0 \<or> i = 1 \<or> i = 2" by auto
  then have here: "times ! (i * 2) \<in> set times" "times ! (i * 2 + 1) \<in> set times"
    by (auto simp: times_def)
  from Cons.prems(1) have "Suc i + length as \<le> 3" by simp
  with Cons.IH have rest:
    "(time, item, kind) \<in> set (timeline_loop (Suc i) as restaurants) \<Longrightarrow> time \<in> set times"
    by blast
  from Cons.prems(2) here rest show ?case by (auto split: if_splits)
qed

lemma restaurant_entries_loop:
  "map (\<lambda>e. fst (snd e)) (filter (\<lambda>e. snd (snd e) = ''restaurant'') (timeline_loop i activities restaurants))
   = take (length activities) (drop i restaurants)"
proof (induction activities arbitrary: i)
  case Nil
  then show ?case by simp
next
  case (Cons a as)
  show ?case
  proof (cases "i < length restaurants")
    case True
    then have "drop i restaurants = restaurants ! i # drop (Suc i) restaurants"
      by (simp add: Cons_nth_drop_Suc)
    with True Cons.IH [of "Suc i"] show ?thesis by simp
  next
    case False
    with Cons.IH [of "Suc i"] show ?thesis by simp
  qed
qed

lemma activity_entries_loop:
  "map (\<lambda>e. fst (snd e)) (filter (\<lambda>e. snd (snd e) = ''activity'') (timeline_loop i activities restaurants))
   = activities"
  by (induction activities arbitrary: i) simp_all

lemma restaurant_entries:
  "map (\<lambda>e. fst (snd e)) (filter (\<lambda>e. snd (snd e) = ''restaurant'') (timeline activities restaurants))
   = take (min (length activities) 3) restaurants"
  by (simp add: timeline_def restaurant_entries_loop min.commute)

text \<open>
  Claim C10. The timeline holds as many restaurant entries as
  \<open>min (length restaurants) (min (length activities) 3)\<close>: they are the first restaurants,
  in order, one for each of the (at most three) activities placed. With one activity and
  three restaurants the timeline has two entries, and the last two restaurants are left
  out.
\<close>

theorem itinerary_restaurant_count:
  "length (filter (\<lambda>e. snd (snd e) = ''restaurant'') (timeline activities restaurants))
     = min (length restaurants) (min (length activities) 3)
   \<and> map (\<lambda>e. fst (snd e))
        (filter (\<lambda>e. snd (snd e) = ''restaurant'') (timeline activities restaurants))
      = take (min (length activities) 3) restaurants
   \<and> timeline [a] [r1, r2, r3] = [(''09:00'', a, ''activity''), (''11:00'', r1, ''restaurant'')]"
proof -
  have "length (filter (\<lambda>e. snd (snd e) = ''restaurant'') (timeline activities restaurants))
        = length (map (\<lambda>e. fst (snd e))
            (filter (\<lambda>e. snd (snd e) = ''restaurant'') (timeline activities restaurants)))"
    by simp
  also have "\<dots> = min (length restaurants) (min (length activities) 3)"
    by (simp only: restaurant_entries length_take)
  finally have count:
    "length (filter (\<lambda>e. snd (snd e) = ''restaurant'') (timeline activities restaurants))
     = min (length restaurants) (min (length activities) 3)" .
  have example:
    "timeline [a] [r1, r2, r3] = [(''09:00'', a, ''activity''), (''11:00'', r1, ''restaurant'')]"
    by (simp add: timeline_def times_def)
  from count restaurant_entries example show ?thesis by blast
qed

theorem itinerary_restaurant_count_witness:
  "length (filter (\<lambda>e. snd (snd e) = ''restaurant'')
      (timeline [''Duomo''] [''Luini'', ''Eataly'', ''Trattoria'']))
     = min (length [''Luini'', ''Eataly'', ''Trattoria'']) (min (length [''Duomo'']) 3)
   \<and> length (timeline [''Duomo''] [''Luini'', ''Eataly'', ''Trattoria'']) = 2"
  using itinerary_restaurant_count
    [where activities = "[''Duomo'']" and restaurants = "[''Luini'', ''Eataly'', ''Trattoria'']"
       and a = "''Duomo''" and ?r1.0 = "''Luini''" and ?r2.0 = "''Eataly''"
       and ?r3.0 = "''Trattoria''"]
  by simp

text \<open>
  Claim C5. With three activities and two restaurants the timeline has five entries, at
  09:00, 11:00, 13:00, 15:00 and 17:00, alternating activity and restaurant, and the text
  returned is, byte for byte, the heading, one line for each of these five entries in this
  order (time, icon, item), the tips heading and the three fixed tips. The icons are
  U+1F3AF for an activity and U+1F37D U+FE0F for a restaurant; the heading carries U+1F4C5
  and the tips heading U+1F4A1. \<^const>\<open>create_itinerary\<close> is a function of its four
  arguments: nothing else enters the result.
\<close>

theorem itinerary_three_two:
  "timeline [a1, a2, a3] [r1, r2]
     = [(''09:00'', a1, ''activity''), (''11:00'', r1, ''restaurant''),
        (''13:00'', a2, ''activity''), (''15:00'', r2, ''restaurant''),
        (''17:00'', a3, ''activity'')]
   \<and> create_itinerary (Some location) (Some [a1, a2, a3]) (Some [r1, r2]) start_time_arg
     = ''# '' @ [CHR 0xF0, CHR 0x9F, CHR 0x93, CHR 0x85] @ '' Itinerario per '' @ location
       @ ''\<newline>\<newline>''
       @ ''**Inizio:** '' @ (case start_time_arg of None \<Rightarrow> ''09:00'' | Some t \<Rightarrow> t)
       @ ''\<newline>\<newline>''
       @ ''**09:00** '' @ [CHR 0xF0, CHR 0x9F, CHR 0x8E, CHR 0xAF] @ '' '' @ a1
       @ ''\<newline>\<newline>''
       @ ''**11:00** '' @ [CHR 0xF0, CHR 0x9F, CHR 0x8D, CHR 0xBD, CHR 0xEF, CHR 0xB8, CHR 0x8F]
       @ '' '' @ r1 @ ''\<newline>\<newline>''
       @ ''**13:00** '' @ [CHR 0xF0, CHR 0x9F, CHR 0x8E, CHR 0xAF] @ '' '' @ a2
       @ ''\<newline>\<newline>''
       @ ''**15:00** '' @ [CHR 0xF0, CHR 0x9F, CHR 0x8D, CHR 0xBD, CHR 0xEF, CHR 0xB8, CHR 0x8F]
       @ '' '' @ r2 @ ''\<newline>\<newline>''
       @ ''**17:00** '' @ [CHR 0xF0, CHR 0x9F, CHR 0x8E, CHR 0xAF] @ '' '' @ a3
       @ ''\<newline>\<newline>''
       @ ''\<newline>'' @ [CHR 0xF0, CHR 0x9F, CHR 0x92, CHR 0xA1] @ '' **Consigli:**\<newline>''
       @ ''- Porta sempre un ombrello pieghevole\<newline>''
       @ ''- Prenota i ristoranti in anticipo\<newline>''
       @ ''- Usa i mezzi pubblici o cammina\<newline>''"
proof -
  have tl: "timeline [a1, a2, a3] [r1, r2]
     = [(''09:00'', a1, ''activity''), (''11:00'', r1, ''restaurant''),
        (''13:00'', a2, ''activity''), (''15:00'', r2, ''restaurant''),
        (''17:00'', a3, ''activity'')]"
    by (simp add: timeline_def times_def)
  show ?thesis
    by (simp add: create_itinerary_def tl itinerary_head_def timeline_line_def
        tips_heading_def travel_tips_def)
qed

theorem itinerary_three_two_witness:
  "map fst (timeline [''Duomo'', ''Brera'', ''Navigli''] [''Luini'', ''Eataly''])
     = [''09:00'', ''11:00'', ''13:00'', ''15:00'', ''17:00'']
   \<and> map (\<lambda>e. snd (snd e)) (timeline [''Duomo'', ''Brera'', ''Navigli''] [''Luini'', ''Eataly''])
     = [''activity'', ''restaurant'', ''activity'', ''restaurant'', ''activity'']
   \<and> length (timeline [''Duomo'', ''Brera'', ''Navigli''] [''Luini'', ''Eataly'']) = 5
   \<and> create_itinerary (Some ''Milano'') (Some [''Duomo'', ''Brera'', ''Navigli''])
        (Some [''Luini'', ''Eataly'']) None
     = ''# '' @ [CHR 0xF0, CHR 0x9F, CHR 0x93, CHR 0x85] @ '' Itinerario per Milano\<newline>\<newline>''
       @ ''**Inizio:** 09:00\<newline>\<newline>''
       @ ''**09:00** '' @ [CHR 0xF0, CHR 0x9F, CHR 0x8E, CHR 0xAF] @ '' Duomo\<newline>\<newline>''
       @ ''**11:00** '' @ [CHR 0xF0, CHR 0x9F, CHR 0x8D, CHR 0xBD, CHR 0xEF, CHR 0xB8, CHR 0x8F]
       @ '' Luini\<newline>\<newline>''
       @ ''**13:00** '' @ [CHR 0xF0, CHR 0x9F, CHR 0x8E, CHR 0xAF] @ '' Brera\<newline>\<newline>''
       @ ''**15:00** '' @ [CHR 0xF0, CHR 0x9F, CHR 0x8D, CHR 0xBD, CHR 0xEF, CHR 0xB8, CHR 0x8F]
       @ '' Eataly\<newline>\<newline>''
       @ ''**17:00** '' @ [CHR 0xF0, CHR 0x9F, CHR 0x8E, CHR 0xAF] @ '' Navigli\<newline>\<newline>''
       @ ''\<newline>'' @ [CHR 0xF0, CHR 0x9F, CHR 0x92, CHR 0xA1] @ '' **Consigli:**\<newline>''
       @ ''- Porta sempre un ombrello pieghevole\<newline>''
       @ ''- Prenota i ristoranti in anticipo\<newline>''
       @ ''- Usa i mezzi pubblici o cammina\<newline>''"
  using itinerary_three_two
    [where ?a1.0 = "''Duomo''" and ?a2.0 = "''Brera''" and ?a3.0 = "''Navigli''"
       and ?r1.0 = "''Luini''" and ?r2.0 = "''Eataly''" and location = "''Milano''"
       and start_time_arg = None]
  by simp

subsection \<open>The weather server's \<^verbatim>\<open>call_tool\<close>\<close>

lemma call_tool_no_key:
  "API_KEY w = [] \<Longrightarrow> call_tool w name arguments = \<lparr>payload = credential_error, requests = []\<rparr>"
  by (simp add: call_tool_def)

lemma API_KEY_empty_iff:
  "API_KEY w = [] \<longleftrightarrow> environ w ''WEATHERAPI_KEY'' = None \<or> environ w ''WEATHERAPI_KEY'' = Some []"
  by (simp add: API_KEY_def split: option.splits)

lemma credential_error_not_unknown: "credential_error \<noteq> ''Strumento sconosciuto: '' @ name"
  by (simp add: credential_error_def)

lemma try_block_unknown:
  "name \<notin> set tool_names \<Longrightarrow> try_block w name arguments = (Inr (''Strumento sconosciuto: '' @ name), [])"
  by (simp add: try_block_def tool_names_def)

lemma sample_key: "API_KEY sample_world = ''k''" "API_KEY no_key_world = []"
  by (simp_all add: API_KEY_def sample_world_def no_key_world_def)

text \<open>
  Claim C7. When \<^verbatim>\<open>WEATHERAPI_KEY\<close> is unset or empty, every invocation, whatever the tool
  name and the arguments, returns the one credential error text and issues no HTTP
  request. \<^const>\<open>call_tool\<close> is total, so an outcome is returned for every input.
\<close>

theorem missing_key_short_circuits:
  "(environ w ''WEATHERAPI_KEY'' = None \<or> environ w ''WEATHERAPI_KEY'' = Some []) \<longrightarrow>
     call_tool w name arguments = \<lparr>payload = credential_error, requests = []\<rparr>"
  using call_tool_no_key [of w name arguments] by (simp add: API_KEY_empty_iff)

theorem missing_key_short_circuits_witness:
  "environ no_key_world ''WEATHERAPI_KEY'' = None
   \<and> call_tool no_key_world ''get_forecast'' [''q'' \<mapsto> AStr ''Milano'', ''days'' \<mapsto> AInt 3]
       = \<lparr>payload = credential_error, requests = []\<rparr>
   \<and> call_tool no_key_world ''get_current_weather'' Map.empty
       = \<lparr>payload = credential_error, requests = []\<rparr>"
  using missing_key_short_circuits [of no_key_world "''get_forecast''" "[''q'' \<mapsto> AStr ''Milano'', ''days'' \<mapsto> AInt 3]"]
    missing_key_short_circuits [of no_key_world "''get_current_weather''" Map.empty]
  by (simp add: no_key_world_def sample_world_def)

text \<open>
  Claim C9. The credential check comes before the dispatch on the tool name: with an
  empty key every name, registered or not, gets the credential error; a result that is
  the unknown-tool text implies a non-empty key; and with a key, a name outside the
  registry gets the unknown-tool text and no request.
\<close>

theorem credential_check_before_dispatch:
  "(API_KEY w = [] \<longrightarrow> payload (call_tool w name arguments) = credential_error)
   \<and> (payload (call_tool w name arguments) = ''Strumento sconosciuto: '' @ name \<longrightarrow> API_KEY w \<noteq> [])
   \<and> (API_KEY w \<noteq> [] \<and> name \<notin> set tool_names \<longrightarrow>
        call_tool w name arguments = \<lparr>payload = ''Strumento sconosciuto: '' @ name, requests = []\<rparr>)"
proof -
  have a: "API_KEY w = [] \<longrightarrow> payload (call_tool w name arguments) = credential_error"
    by (simp add: call_tool_no_key)
  have b: "payload (call_tool w name arguments) = ''Strumento sconosciuto: '' @ name \<longrightarrow> API_KEY w \<noteq> []"
    using credential_error_not_unknown [of name] by (auto simp: call_tool_no_key)
  have c: "API_KEY w \<noteq> [] \<and> name \<notin> set tool_names \<longrightarrow>
        call_tool w name arguments = \<lparr>payload = ''Strumento sconosciuto: '' @ name, requests = []\<rparr>"
    by (simp add: call_tool_def try_block_unknown)
  from a b c show ?thesis by blast
qed

theorem credential_check_before_dispatch_witness:
  "API_KEY no_key_world = []
   \<and> payload (call_tool no_key_world ''no_such_tool'' Map.empty) = credential_error
   \<and> API_KEY sample_world \<noteq> [] \<and> ''no_such_tool'' \<notin> set tool_names
   \<and> call_tool sample_world ''no_such_tool'' Map.empty
       = \<lparr>payload = ''Strumento sconosciuto: no_such_tool'', requests = []\<rparr>"
  using credential_check_before_dispatch [of no_key_world "''no_such_tool''" Map.empty]
    credential_check_before_dispatch [of sample_world "''no_such_tool''" Map.empty]
  by (simp add: sample_key tool_names_def)

subsection \<open>The \<^verbatim>\<open>days\<close> parameter of \<^verbatim>\<open>get_forecast\<close>\<close>

lemmas int_eval = int_of_str_def in_ascii_model_def int_ascii_def strip_def is_space_def
  parse_unsigned_def is_digit_def digit_val_def
lemmas url_eval = build_url_def BASE_URL_def urlencode_def quote_plus_def quote_char_def
  is_unreserved_def hex_digit_def str_of_def str_int_def str_nat.simps digit_char_def
  char_of_eq_iff


lemma int_of_str_20: "int_of_str w ''20'' = Some 20"
  by (simp add: int_eval)

text \<open>Some readings of \<^verbatim>\<open>int\<close>: spaces around the literal and an underscore between digits
  are taken; a word, the empty text, a decimal point, and a leading separator character
  (28) are not.\<close>

lemma int_of_str_examples:
  "int_of_str w ''3'' = Some 3" "int_of_str w '' 1_4 '' = Some 14"
  "int_of_str w ''-1'' = Some (-1)" "int_of_str w ''three'' = None"
  "int_of_str w '''' = None" "int_of_str w ''3.0'' = None"
  "int_of_str w [CHR 0x1C, CHR ''3''] = None"
  by (simp_all add: int_eval)

text \<open>A text with a non-ASCII character (here the fullwidth digit three, U+FF13, the bytes
  EF BC 93) or of more than 640 characters is read as the interpreter reads it.\<close>

lemma int_of_str_beyond:
  "int_of_str w [CHR 0xEF, CHR 0xBC, CHR 0x93] = int_other w [CHR 0xEF, CHR 0xBC, CHR 0x93]"
  "640 < length s \<Longrightarrow> int_of_str w s = int_other w s"
  by (simp_all add: int_of_str_def in_ascii_model_def)

text \<open>\<^verbatim>\<open>int\<close> reads the decimal rendering of an integer back as that integer.\<close>

lemma digit_char_is_digit: "d < 10 \<Longrightarrow> is_digit (digit_char d) \<and> digit_val (digit_char d) = int d"
  by (simp add: is_digit_def digit_char_def digit_val_def)

lemma str_nat_digits: "list_all is_digit (str_nat n) \<and> str_nat n \<noteq> []"
proof (induction n rule: str_nat.induct)
  case (1 n)
  show ?case
  proof (cases "n < 10")
    case True
    then show ?thesis by (simp add: str_nat.simps [of n] digit_char_is_digit)
  next
    case False
    then show ?thesis using 1 by (simp add: str_nat.simps [of n] digit_char_is_digit)
  qed
qed

lemma parse_digits_str_nat:
  "parse_digits (str_nat n @ rest) acc = parse_digits rest (acc * 10 ^ length (str_nat n) + int n)"
proof (induction n arbitrary: rest acc rule: str_nat.induct)
  case (1 n)
  show ?case
  proof (cases "n < 10")
    case True
    then show ?thesis by (simp add: str_nat.simps [of n] digit_char_is_digit mult.commute)
  next
    case False
    have d: "is_digit (digit_char (n mod 10))" "digit_val (digit_char (n mod 10)) = int (n mod 10)"
      by (simp_all add: digit_char_is_digit)
    have "parse_digits (str_nat n @ rest) acc
          = parse_digits (str_nat (n div 10) @ (digit_char (n mod 10) # rest)) acc"
      using False by (simp add: str_nat.simps [of n])
    also have "\<dots> = parse_digits (digit_char (n mod 10) # rest)
                        (acc * 10 ^ length (str_nat (n div 10)) + int (n div 10))"
      using False by (simp add: "1.IH")
    also have "\<dots> = parse_digits rest
                        (10 * (acc * 10 ^ length (str_nat (n div 10)) + int (n div 10)) + int (n mod 10))"
      using d by simp
    also have "10 * (acc * 10 ^ length (str_nat (n div 10)) + int (n div 10)) + int (n mod 10)
               = acc * 10 ^ length (str_nat n) + int n"
    proof -
      have "length (str_nat n) = Suc (length (str_nat (n div 10)))"
        using False by (simp add: str_nat.simps [of n])
      moreover have "int n = 10 * int (n div 10) + int (n mod 10)"
        by (simp add: zdiv_int zmod_int)
      ultimately show ?thesis by (simp add: algebra_simps)
    qed
    finally show ?thesis .
  qed
qed

lemma parse_unsigned_str_nat: "parse_unsigned (str_nat n) = Some (int n)"
proof -
  obtain c cs where s: "str_nat n = c # cs" and c: "is_digit c"
    using str_nat_digits [of n] by (cases "str_nat n") auto
  have "parse_digits (str_nat n @ []) 0 = Some (int n)"
    by (simp only: parse_digits_str_nat) simp
  then show ?thesis using s c by (simp add: parse_unsigned_def)
qed

lemma digit_not_space: "is_digit c \<Longrightarrow> \<not> is_space c \<and> c \<noteq> CHR ''-'' \<and> c \<noteq> CHR ''+'' \<and> (of_char c :: nat) < 128"
  by (auto simp: is_digit_def is_space_def Let_def)

lemma strip_no_space: "list_all (\<lambda>c. \<not> is_space c) s \<Longrightarrow> strip s = s"
proof -
  assume a: "list_all (\<lambda>c. \<not> is_space c) s"
  then have "dropWhile is_space s = s" by (cases s) simp_all
  moreover from a have "dropWhile is_space (rev s) = rev s"
    by (cases "rev s") (auto simp: list_all_iff dest!: arg_cong [where f = set])
  ultimately show ?thesis by (simp add: strip_def)
qed

lemma int_ascii_str_int: "int_ascii (str_int n) = Some n"
proof (cases "n < 0")
  case True
  have ns: "list_all (\<lambda>c. \<not> is_space c) (CHR ''-'' # str_nat (nat (- n)))"
    using str_nat_digits [of "nat (- n)"] digit_not_space
    by (auto simp: list_all_iff is_space_def)
  have "strip (str_int n) = CHR ''-'' # str_nat (nat (- n))"
    using True strip_no_space [OF ns] by (simp add: str_int_def)
  then show ?thesis using True by (simp add: int_ascii_def parse_unsigned_str_nat)
next
  case False
  obtain c cs where s: "str_nat (nat n) = c # cs" and c: "is_digit c"
    using str_nat_digits [of "nat n"] by (cases "str_nat (nat n)") auto
  have ns: "list_all (\<lambda>c. \<not> is_space c) (str_nat (nat n))"
    using str_nat_digits [of "nat n"] digit_not_space by (auto simp: list_all_iff)
  have st: "strip (str_int n) = c # cs"
    using False strip_no_space [OF ns] s by (simp add: str_int_def)
  have "parse_unsigned (c # cs) = Some (int (nat n))"
    using parse_unsigned_str_nat [of "nat n"] s by simp
  then show ?thesis using False st c digit_not_space [OF c] by (simp add: int_ascii_def)
qed

lemma str_int_ascii: "list_all (\<lambda>c. (of_char c :: nat) < 128) (str_int n)"
  using str_nat_digits digit_not_space by (auto simp: str_int_def list_all_iff)

lemma int_of_str_str_int:
  "length (str_int n) \<le> 640 \<Longrightarrow> int_of_str w (str_int n) = Some n"
  by (simp add: int_of_str_def in_ascii_model_def str_int_ascii int_ascii_str_int)

lemma sample_forecast_url:
  "build_url sample_world ''forecast''
     [(''q'', AStr ''Milano''), (''days'', AInt 20), (''aqi'', AStr ''no''),
      (''alerts'', AStr ''yes''), (''lang'', AStr ''en'')]
   = ''http://api.weatherapi.com/v1/forecast.json?q=Milano&days=20&aqi=no&alerts=yes&lang=en&key=k''"
  by (simp add: url_eval sample_key)

lemma coerce_days_str:
  "coerce_days w (arguments(''days'' \<mapsto> AStr s))
     = (case int_of_str w s of None \<Rightarrow> Inl (Exception (int_error w s)) | Some n \<Rightarrow> Inr (AInt n))"
  by (simp add: coerce_days_def get_or_def)

lemma coerce_days_int:
  "coerce_days w (arguments(''days'' \<mapsto> AInt n)) = Inr (AInt n)"
  by (simp add: coerce_days_def get_or_def)

lemma other_key_days:
  "get_item (arguments(''days'' \<mapsto> v)) ''q'' = get_item arguments ''q''"
  "get_or (arguments(''days'' \<mapsto> v)) ''aqi'' d = get_or arguments ''aqi'' d"
  "get_or (arguments(''days'' \<mapsto> v)) ''alerts'' d = get_or arguments ''alerts'' d"
  "get_or (arguments(''days'' \<mapsto> v)) ''lang'' d = get_or arguments ''lang'' d"
  "(arguments(''days'' \<mapsto> v)) ''aqi'' = arguments ''aqi''"
  by (simp_all add: get_item_def get_or_def)

lemma try_block_forecast:
  "try_block w ''get_forecast'' arguments =
     request_and_render w ''get_forecast'' arguments ''forecast''
       (case coerce_days w arguments of
          Inl e \<Rightarrow> Inl e
        | Inr days \<Rightarrow>
            (case get_item arguments ''q'' of
               Inl e \<Rightarrow> Inl e
             | Inr q \<Rightarrow> Inr (forecast_params arguments q days)))"
  unfolding try_block_def forecast_params_def by simp

lemma request_and_render_args:
  "a ''aqi'' = b ''aqi'' \<Longrightarrow>
   request_and_render w name a endpoint p = request_and_render w name b endpoint p"
  by (auto simp: request_and_render_def Let_def split: sum.splits)

lemma forecast_params_days:
  "forecast_params (arguments(''days'' \<mapsto> v)) q d = forecast_params arguments q d"
  by (simp add: forecast_params_def other_key_days)

lemma try_block_forecast_str:
  "int_of_str w s = Some n \<Longrightarrow>
   try_block w ''get_forecast'' (arguments(''days'' \<mapsto> AStr s))
   = try_block w ''get_forecast'' (arguments(''days'' \<mapsto> AInt n))"
  unfolding try_block_forecast coerce_days_str coerce_days_int other_key_days forecast_params_days
  by (simp add: request_and_render_args [of "arguments(''days'' \<mapsto> AStr s)" "arguments(''days'' \<mapsto> AInt n)"])

lemma requests_request_and_render:
  "snd (request_and_render w name arguments endpoint (Inr params)) = [build_url w endpoint params]"
  "request_and_render w name arguments endpoint (Inl e) = (Inl e, [])"
  by (simp_all add: request_and_render_def Let_def split: sum.splits)

lemma requests_call_tool:
  "API_KEY w \<noteq> [] \<Longrightarrow> requests (call_tool w name arguments) = snd (try_block w name arguments)"
  by (simp add: call_tool_def split: prod.splits sum.splits)

text \<open>
  Claim C2, as the code has it. A \<^verbatim>\<open>days\<close> string that \<^verbatim>\<open>int\<close> reads as \<open>n\<close> is treated
  exactly as the integer \<open>n\<close>, and the decimal rendering of an integer \<open>k\<close> is read as
  \<open>k\<close>. The handler has no range check: with a key and a
  location, every such \<open>n\<close>, inside or outside 1 to 14, goes into the one request that is
  issued. A \<^verbatim>\<open>days\<close> string that is not an integer literal gives the text
  \<^verbatim>\<open>Errore: ...\<close> with the message of the \<^verbatim>\<open>ValueError\<close>, and no request.
\<close>

theorem forecast_days_coercion:
  "(int_of_str w s = Some n \<longrightarrow>
      call_tool w ''get_forecast'' (arguments(''days'' \<mapsto> AStr s))
        = call_tool w ''get_forecast'' (arguments(''days'' \<mapsto> AInt n)))
   \<and> (API_KEY w \<noteq> [] \<and> arguments ''q'' = Some q \<and> int_of_str w s = Some n \<longrightarrow>
        requests (call_tool w ''get_forecast'' (arguments(''days'' \<mapsto> AStr s)))
          = [build_url w ''forecast''
               [(''q'', q), (''days'', AInt n),
                (''aqi'', get_or arguments ''aqi'' (AStr ''no'')),
                (''alerts'', get_or arguments ''alerts'' (AStr ''yes'')),
                (''lang'', get_or arguments ''lang'' (AStr ''en''))]])
   \<and> (API_KEY w \<noteq> [] \<and> int_of_str w s = None \<longrightarrow>
        call_tool w ''get_forecast'' (arguments(''days'' \<mapsto> AStr s))
          = \<lparr>payload = ''Errore: '' @ int_error w s, requests = []\<rparr>)
   \<and> (API_KEY w \<noteq> [] \<and> arguments ''q'' = Some q \<longrightarrow>
        requests (call_tool w ''get_forecast'' (arguments(''days'' \<mapsto> AInt m)))
          = [build_url w ''forecast''
               [(''q'', q), (''days'', AInt m),
                (''aqi'', get_or arguments ''aqi'' (AStr ''no'')),
                (''alerts'', get_or arguments ''alerts'' (AStr ''yes'')),
                (''lang'', get_or arguments ''lang'' (AStr ''en''))]])
   \<and> (length (str_int k) \<le> 640 \<longrightarrow> int_of_str w (str_int k) = Some k)"
proof -
  have a: "int_of_str w s = Some n \<longrightarrow>
      call_tool w ''get_forecast'' (arguments(''days'' \<mapsto> AStr s))
        = call_tool w ''get_forecast'' (arguments(''days'' \<mapsto> AInt n))"
    by (simp add: call_tool_def try_block_forecast_str)
  have b: "API_KEY w \<noteq> [] \<and> arguments ''q'' = Some q \<and> int_of_str w s = Some n \<longrightarrow>
        requests (call_tool w ''get_forecast'' (arguments(''days'' \<mapsto> AStr s)))
          = [build_url w ''forecast''
               [(''q'', q), (''days'', AInt n),
                (''aqi'', get_or arguments ''aqi'' (AStr ''no'')),
                (''alerts'', get_or arguments ''alerts'' (AStr ''yes'')),
                (''lang'', get_or arguments ''lang'' (AStr ''en''))]]"
    by (simp add: requests_call_tool try_block_forecast coerce_days_str other_key_days
        forecast_params_days requests_request_and_render get_item_def)
       (simp add: forecast_params_def)
  have c: "API_KEY w \<noteq> [] \<and> int_of_str w s = None \<longrightarrow>
        call_tool w ''get_forecast'' (arguments(''days'' \<mapsto> AStr s))
          = \<lparr>payload = ''Errore: '' @ int_error w s, requests = []\<rparr>"
    by (simp add: call_tool_def try_block_forecast coerce_days_str requests_request_and_render
        except_text_def)
  have d: "API_KEY w \<noteq> [] \<and> arguments ''q'' = Some q \<longrightarrow>
        requests (call_tool w ''get_forecast'' (arguments(''days'' \<mapsto> AInt m)))
          = [build_url w ''forecast''
               [(''q'', q), (''days'', AInt m),
                (''aqi'', get_or arguments ''aqi'' (AStr ''no'')),
                (''alerts'', get_or arguments ''alerts'' (AStr ''yes'')),
                (''lang'', get_or arguments ''lang'' (AStr ''en''))]]"
    by (simp add: requests_call_tool try_block_forecast coerce_days_int other_key_days
        forecast_params_days requests_request_and_render get_item_def)
       (simp add: forecast_params_def)
  have e: "length (str_int k) \<le> 640 \<longrightarrow> int_of_str w (str_int k) = Some k"
    by (simp add: int_of_str_str_int)
  from a b c d e show ?thesis by blast
qed

text \<open>
  The claim as the specification words it fails: for the string \<^verbatim>\<open>"20"\<close>, outside 1 to
  14, the request is issued with \<^verbatim>\<open>days=20\<close>, and the result is the provider's answer.
\<close>

theorem forecast_out_of_range_requested:
  "int_of_str sample_world ''20'' = Some 20 \<and> \<not> (1 \<le> (20::int) \<and> (20::int) \<le> 14)
   \<and> call_tool sample_world ''get_forecast'' [''q'' \<mapsto> AStr ''Milano'', ''days'' \<mapsto> AStr ''20'']
       = \<lparr>payload = ''ok'',
          requests = [''http://api.weatherapi.com/v1/forecast.json?q=Milano&days=20&aqi=no&alerts=yes&lang=en&key=k'']\<rparr>"
  by (simp add: int_of_str_20 call_tool_def sample_key try_block_forecast coerce_days_def get_or_def
      get_item_def forecast_params_def request_and_render_def sample_forecast_url make_request_def)
     (simp add: sample_world_def)

lemma sample_forecast_int:
  "call_tool sample_world ''get_forecast'' [''q'' \<mapsto> AStr ''Milano'', ''days'' \<mapsto> AInt 20]
     = \<lparr>payload = ''ok'',
        requests = [''http://api.weatherapi.com/v1/forecast.json?q=Milano&days=20&aqi=no&alerts=yes&lang=en&key=k'']\<rparr>"
  by (simp add: call_tool_def sample_key try_block_forecast coerce_days_def get_or_def
      get_item_def forecast_params_def request_and_render_def sample_forecast_url make_request_def)
     (simp add: sample_world_def)

theorem forecast_days_coercion_witness:
  "str_int 20 = ''20'' \<and> length (str_int 20) \<le> 640
   \<and> int_of_str sample_world ''20'' = Some 20
   \<and> call_tool sample_world ''get_forecast'' [''q'' \<mapsto> AStr ''Milano'', ''days'' \<mapsto> AStr ''20'']
       = call_tool sample_world ''get_forecast'' [''q'' \<mapsto> AStr ''Milano'', ''days'' \<mapsto> AInt 20]
   \<and> API_KEY sample_world \<noteq> []
   \<and> requests (call_tool sample_world ''get_forecast'' [''q'' \<mapsto> AStr ''Milano'', ''days'' \<mapsto> AStr ''20''])
       = [''http://api.weatherapi.com/v1/forecast.json?q=Milano&days=20&aqi=no&alerts=yes&lang=en&key=k'']
   \<and> int_of_str sample_world ''three'' = None
   \<and> call_tool sample_world ''get_forecast'' [''q'' \<mapsto> AStr ''Milano'', ''days'' \<mapsto> AStr ''three'']
       = \<lparr>payload = ''Errore: '' @ int_error sample_world ''three'', requests = []\<rparr>"
  using forecast_days_coercion [where w = sample_world and s = "''20''" and n = 20
      and arguments = "[''q'' \<mapsto> AStr ''Milano'']" and q = "AStr ''Milano''" and k = 20]
    forecast_days_coercion [where w = sample_world and s = "''three''"
      and arguments = "[''q'' \<mapsto> AStr ''Milano'']"]
  by (simp add: int_of_str_20 int_of_str_examples sample_key get_or_def sample_forecast_url
      sample_forecast_int str_int_def str_nat.simps digit_char_def char_of_eq_iff)

subsection \<open>\<^verbatim>\<open>stream_tool_response\<close>\<close>

lemma stream_token_sel:
  "streamed (stream_token token msg) = streamed msg @ [token]"
  "elements (stream_token token msg) = elements msg"
  by (simp_all add: stream_token_def)

lemma streamed_foldl_tokens:
  "streamed (foldl (\<lambda>m char. stream_token [char] m) msg response)
     = streamed msg @ map (\<lambda>char. [char]) response"
  by (induction response arbitrary: msg) (simp_all add: stream_token_def)

lemma elements_foldl_tokens:
  "elements (foldl (\<lambda>m char. stream_token [char] m) msg response) = elements msg"
  by (induction response arbitrary: msg) (simp_all add: stream_token_def)

lemma concat_singletons: "concat (map (\<lambda>char. [char]) response) = response"
  by (induction response) simp_all

text \<open>
  The helper \<^verbatim>\<open>stream_tool_response\<close>, which no function of \<^verbatim>\<open>app.py\<close> calls. For a
  payload of more than 200 characters it streams the header and then one token holding,
  between the code fences, the first 200 characters of the payload followed by three
  dots, and appends to the message's elements one text element whose content is the whole
  payload. For a payload of at most 200 characters it streams the header, the payload
  character by character (all of it), and a blank line, and leaves the elements as they
  were.
\<close>

lemma stream_tool_response_cut:
  "(length response > 200 \<longrightarrow>
      streamed (stream_tool_response tool_name response msg)
        = streamed msg
          @ [[0x1F4E6] @ ascii '' **Risposta da `'' @ tool_name @ ascii ''`:**\<newline>\<newline>'',
             ascii ''```\<newline>'' @ (take 200 response @ ascii ''...'') @ ascii ''\<newline>```\<newline>\<newline>'']
      \<and> elements (stream_tool_response tool_name response msg)
        = Some ((case elements msg of None \<Rightarrow> [] | Some es \<Rightarrow> es)
                @ [\<lparr>el_name = ascii ''tool_response_'' @ tool_name, el_content = response,
                    el_display = ascii ''inline'', el_language = ascii ''text''\<rparr>])
      \<and> length (take 200 response) = 200)
   \<and> (length response \<le> 200 \<longrightarrow>
      streamed (stream_tool_response tool_name response msg)
        = streamed msg
          @ [[0x1F4E6] @ ascii '' **Risposta da `'' @ tool_name @ ascii ''`:**\<newline>\<newline>'']
          @ map (\<lambda>char. [char]) response @ [ascii ''\<newline>\<newline>'']
      \<and> concat (map (\<lambda>char. [char]) response) = response
      \<and> elements (stream_tool_response tool_name response msg) = elements msg)"
  by (simp add: stream_tool_response_def Let_def stream_token_sel streamed_foldl_tokens
      elements_foldl_tokens concat_singletons)

subsection \<open>The turn record\<close>

lemma foldl_walk_tool_call:
  "tool_calls_made (foldl walk_tool_call s tool_calls)
     = tool_calls_made s @ map tool_call_name tool_calls"
  by (induction tool_calls arbitrary: s) (simp_all add: walk_tool_call_def Let_def)

lemma walk_step_tool_calls:
  "tool_calls_made (walk_step s m)
     = tool_calls_made s @ map tool_call_name (transcript_tool_calls [m])"
  by (cases m) (simp_all add: walk_step_def transcript_tool_calls_def foldl_walk_tool_call Let_def)

lemma transcript_tool_calls_Cons:
  "transcript_tool_calls (m # ms) = transcript_tool_calls [m] @ transcript_tool_calls ms"
  by (simp add: transcript_tool_calls_def)

lemma foldl_walk_step:
  "tool_calls_made (foldl walk_step s messages)
     = tool_calls_made s @ map tool_call_name (transcript_tool_calls messages)"
proof (induction messages arbitrary: s)
  case Nil
  then show ?case by (simp add: transcript_tool_calls_def)
next
  case (Cons m ms)
  have "tool_calls_made (foldl walk_step s (m # ms))
        = tool_calls_made (walk_step s m) @ map tool_call_name (transcript_tool_calls ms)"
    using Cons.IH [of "walk_step s m"] by simp
  also have "\<dots> = tool_calls_made s @ map tool_call_name (transcript_tool_calls (m # ms))"
    by (simp add: walk_step_tool_calls transcript_tool_calls_Cons [of m ms])
  finally show ?case .
qed

lemma walk_transcript_tools:
  "tool_calls_made (walk_transcript messages) = map tool_call_name (transcript_tool_calls messages)"
  by (simp add: walk_transcript_def foldl_walk_step)

lemma walk_transcript_final:
  "final \<noteq> [] \<Longrightarrow> final_response (walk_transcript (pre @ [AIMessage final []])) = final"
  by (simp add: walk_transcript_def walk_step_def)

text \<open>
  Claim C8. When the agent's transcript holds exactly two tool calls, named \<open>n1\<close> and
  \<open>n2\<close> in this order, and ends with the final answer, \<^const>\<open>main\<close> appends to the
  conversation history one turn record whose \<open>tools_used\<close> is \<open>[n1, n2]\<close> and whose
  \<open>assistant\<close> is the final answer.
\<close>

theorem turn_record_tools_used:
  assumes "agent sess = Some ag" and "ag user_message = Some messages"
    and "transcript_tool_calls messages = [c1, c2]"
    and "tc_name c1 = Some n1" and "tc_name c2 = Some n2"
    and "messages = pre @ [AIMessage final []]" and "final \<noteq> []"
  shows "conversation_history (main now user_message sess)
           = conversation_history sess
             @ [\<lparr>timestamp = now, user = user_message, assistant = final,
                 tools_used = [n1, n2]\<rparr>]"
proof -
  have "tool_calls_made (walk_transcript messages) = [n1, n2]"
    using assms(3-5) by (simp add: walk_transcript_tools tool_call_name_def)
  moreover have "final_response (walk_transcript messages) = final"
    using assms(6,7) by (simp add: walk_transcript_final)
  ultimately show ?thesis
    using assms(1,2) by (simp add: main_def Let_def)
qed

theorem turn_record_tools_used_witness:
  "agent sample_session = Some sample_agent
   \<and> sample_agent (ascii ''Che tempo fa?'') = Some sample_transcript
   \<and> transcript_tool_calls sample_transcript
       = [\<lparr>tc_name = Some (ascii ''get_forecast''), tc_args_json = ascii ''{}''\<rparr>,
          \<lparr>tc_name = Some (ascii ''suggest_activities''), tc_args_json = ascii ''{}''\<rparr>]
   \<and> conversation_history
        (main (ascii ''2025-11-04T10:00:00'') (ascii ''Che tempo fa?'') sample_session)
       = [\<lparr>timestamp = ascii ''2025-11-04T10:00:00'', user = ascii ''Che tempo fa?'',
           assistant = ascii ''Domani sole'',
           tools_used = [ascii ''get_forecast'', ascii ''suggest_activities'']\<rparr>]"
proof -
  have calls: "transcript_tool_calls sample_transcript
       = [\<lparr>tc_name = Some (ascii ''get_forecast''), tc_args_json = ascii ''{}''\<rparr>,
          \<lparr>tc_name = Some (ascii ''suggest_activities''), tc_args_json = ascii ''{}''\<rparr>]"
    by (simp add: transcript_tool_calls_def sample_transcript_def)
  have shape: "sample_transcript
       = [OtherMessage,
          AIMessage [] [\<lparr>tc_name = Some (ascii ''get_forecast''), tc_args_json = ascii ''{}''\<rparr>],
          ToolMessage (Some (ascii ''get_forecast'')) (ascii ''Sunny''),
          AIMessage [] [\<lparr>tc_name = Some (ascii ''suggest_activities''), tc_args_json = ascii ''{}''\<rparr>],
          ToolMessage (Some (ascii ''suggest_activities'')) (ascii ''Parchi'')]
         @ [AIMessage (ascii ''Domani sole'') []]"
    by (simp add: sample_transcript_def)
  have nonempty: "ascii ''Domani sole'' \<noteq> []"
    by (simp add: ascii_def)
  have ag: "agent sample_session = Some sample_agent"
    by (simp add: sample_session_def)
  have run: "sample_agent (ascii ''Che tempo fa?'') = Some sample_transcript"
    by (simp add: sample_agent_def)
  have hist: "conversation_history sample_session = []"
    by (simp add: sample_session_def)
  from turn_record_tools_used [OF ag run calls _ _ shape nonempty, of "ascii ''get_forecast''"
      "ascii ''suggest_activities''" "ascii ''2025-11-04T10:00:00''"]
  have "conversation_history
        (main (ascii ''2025-11-04T10:00:00'') (ascii ''Che tempo fa?'') sample_session)
       = conversation_history sample_session
         @ [\<lparr>timestamp = ascii ''2025-11-04T10:00:00'', user = ascii ''Che tempo fa?'',
           assistant = ascii ''Domani sole'',
           tools_used = [ascii ''get_forecast'', ascii ''suggest_activities'']\<rparr>]"
    by simp
  with ag run calls hist show ?thesis by simp
qed

subsection \<open>What the interface shows of a tool result\<close>










end
